theory Spec2Isabelle
  imports Main "HOL-Library.Sublist" "HOL-Library.AList"
begin

section \<open>Text of the host language\<close>

text \<open>
  A Python \<open>str\<close> is a sequence of Unicode code points; it is modelled as a list of
  code-point numbers, so that \<open>len\<close>, slicing and \<open>split\<close> count what the source counts.
  \<open>ascii\<close> turns an ASCII literal into such a text.
\<close>

type_synonym str = "nat list"

definition ascii :: "string \<Rightarrow> str" where
  "ascii s = map of_char s"

definition nl :: nat where
  "nl = 10"

text \<open>\<open>str.isspace\<close> for one code point (the white-space set of CPython).\<close>

definition isspace :: "nat \<Rightarrow> bool" where
  "isspace c \<longleftrightarrow>
     (9 \<le> c \<and> c \<le> 13) \<or> (28 \<le> c \<and> c \<le> 32) \<or> c = 133 \<or> c = 160 \<or> c = 5760 \<or>
     (8192 \<le> c \<and> c \<le> 8202) \<or> c = 8232 \<or> c = 8233 \<or> c = 8239 \<or> c = 8287 \<or> c = 12288"

definition rstrip :: "str \<Rightarrow> str" where
  "rstrip s = rev (dropWhile isspace (rev s))"

definition strip :: "str \<Rightarrow> str" where
  "strip s = rstrip (dropWhile isspace s)"

text \<open>\<open>a in b\<close> on strings: \<open>a\<close> occurs in \<open>b\<close> as a contiguous run.\<close>

fun str_in :: "str \<Rightarrow> str \<Rightarrow> bool" where
  "str_in a [] = (a = [])"
| "str_in a (c # cs) = (prefix a (c # cs) \<or> str_in a cs)"

text \<open>\<open>s.split(sep)\<close> for a separator of one character: never empty, one more piece
  than there are separators.\<close>

fun split_on :: "nat \<Rightarrow> str \<Rightarrow> str list" where
  "split_on sep [] = [[]]"
| "split_on sep (c # cs) =
     (if c = sep then [] # split_on sep cs
      else (case split_on sep cs of [] \<Rightarrow> [[c]] | l # ls \<Rightarrow> (c # l) # ls))"

definition split_nl :: "str \<Rightarrow> str list" where
  "split_nl s = split_on nl s"

text \<open>\<open>"\n".join(ls)\<close>.\<close>

fun join_nl :: "str list \<Rightarrow> str" where
  "join_nl [] = []"
| "join_nl [l] = l"
| "join_nl (l # ls) = l @ nl # join_nl ls"

text \<open>\<open>xs[-n:]\<close> for an integer \<open>n\<close>: the last \<open>n\<close> elements when \<open>n > 0\<close>, everything
  when \<open>n = 0\<close> (since \<open>-0 = 0\<close>), and \<open>xs[k:]\<close> when \<open>n = -k < 0\<close>.\<close>

definition last_n :: "int \<Rightarrow> 'a list \<Rightarrow> 'a list" where
  "last_n n xs = (if n > 0 then drop (length xs - nat n) xs else drop (nat (- n)) xs)"

text \<open>Decimal rendering of a natural number, as \<open>str(int)\<close> gives it.\<close>

fun dec :: "nat \<Rightarrow> str" where
  "dec n = (if n < 10 then [48 + n] else dec (n div 10) @ [48 + n mod 10])"

declare dec.simps [simp del]

section \<open>Structured results\<close>

text \<open>
  The message texts of the source are string templates in Chinese; each template is a
  constructor here, carrying the values the template interpolates.
\<close>

datatype exc =
    CalledProcessError | TypeError | ValueError | KeyError | JSONDecodeError
  | OSError | FileNotFoundError | PermissionError | BrokenPipeError | TimeoutExpired
  | UnicodeDecodeError

datatype message =
    TmuxInstallFailed
  | SessionExists str
  | SessionExistsPid str int
  | SessionNotFound str
  | LogMissing str
  | NoFifo str
  | CloseFailed str
  | ExcText exc
  | ConfigFailed exc
  | NeedText
  | NeedCommand
  | Created str
  | CreatedPid str int
  | CreatedStandalone str
  | Closed str
  | AllClosed
  | TextSent
  | ViaNewProcess
  | TimeoutTmux
  | TimeoutOneShot

datatype jval = JBool bool | JStr str | JNum int | JMsg message | JList "jval list"
  | JObj "(string \<times> jval) list"

type_synonym result = "(string \<times> jval) list"

text \<open>\<open>_result(success, **kwargs)\<close>: the object \<open>{"success": success, **kwargs}\<close>.\<close>

definition result :: "bool \<Rightarrow> (string \<times> jval) list \<Rightarrow> result" where
  "result success kwargs = (''success'', JBool success) # kwargs"

section \<open>Files: bytes on disk, text in the program\<close>

text \<open>
  A file holds bytes (numbers below 256); \<open>stat().st_size\<close> counts them. The program reads
  and writes its files as UTF-8 text. Text is taken to hold Unicode scalar values, which
  always encode; lone surrogates, which only undecodable command-line bytes produce, are
  outside the model.
\<close>

type_synonym bytes = "nat list"

definition st_size :: "bytes \<Rightarrow> nat" where
  "st_size f = length f"

definition cont :: "nat \<Rightarrow> bool" where
  "cont b \<longleftrightarrow> 128 \<le> b \<and> b < 192"

text \<open>Strict UTF-8 decoding: \<open>None\<close> where \<open>bytes.decode("utf-8")\<close> raises (a stray or
  missing continuation byte, an overlong form, a surrogate, a value above U+10FFFF).\<close>

fun utf8_decode :: "bytes \<Rightarrow> str option" where
  "utf8_decode [] = Some []"
| "utf8_decode (b # bs) =
     (if b < 128 then map_option ((#) b) (utf8_decode bs)
      else if 194 \<le> b \<and> b < 224 then
        (case bs of
           b1 # r \<Rightarrow>
             if cont b1 then map_option ((#) ((b - 192) * 64 + (b1 - 128))) (utf8_decode r)
             else None
         | _ \<Rightarrow> None)
      else if 224 \<le> b \<and> b < 240 then
        (case bs of
           b1 # b2 # r \<Rightarrow>
             (let c = (b - 224) * 4096 + (b1 - 128) * 64 + (b2 - 128) in
              if cont b1 \<and> cont b2 \<and> 2048 \<le> c \<and> (c < 55296 \<or> 57344 \<le> c)
              then map_option ((#) c) (utf8_decode r) else None)
         | _ \<Rightarrow> None)
      else if 240 \<le> b \<and> b < 245 then
        (case bs of
           b1 # b2 # b3 # r \<Rightarrow>
             (let c = (b - 240) * 262144 + (b1 - 128) * 4096 + (b2 - 128) * 64 + (b3 - 128) in
              if cont b1 \<and> cont b2 \<and> cont b3 \<and> 65536 \<le> c \<and> c < 1114112
              then map_option ((#) c) (utf8_decode r) else None)
         | _ \<Rightarrow> None)
      else None)"

text \<open>Reading in text mode folds \<open>\r\n\<close> and a lone \<open>\r\<close> into \<open>\n\<close>.\<close>

fun universal_newlines :: "str \<Rightarrow> str" where
  "universal_newlines [] = []"
| "universal_newlines (c # cs) =
     (if c = 13 then
        (case cs of
           d # ds \<Rightarrow> if d = 10 then 10 # universal_newlines ds else 10 # universal_newlines cs
         | [] \<Rightarrow> [10])
      else c # universal_newlines cs)"

text \<open>\<open>Path.read_text(encoding="utf-8")\<close> on a file holding \<open>f\<close>.\<close>

definition read_text :: "bytes \<Rightarrow> exc + str" where
  "read_text f =
     (case utf8_decode f of
        None \<Rightarrow> Inl UnicodeDecodeError
      | Some s \<Rightarrow> Inr (universal_newlines s))"

definition utf8_encode_cp :: "nat \<Rightarrow> bytes" where
  "utf8_encode_cp c =
     (if c < 128 then [c]
      else if c < 2048 then [192 + c div 64, 128 + c mod 64]
      else if c < 65536 then [224 + c div 4096, 128 + c div 64 mod 64, 128 + c mod 64]
      else [240 + c div 262144, 128 + c div 4096 mod 64, 128 + c div 64 mod 64,
            128 + c mod 64])"

text \<open>Writing in text mode turns \<open>\n\<close> into \<open>\r\n\<close> on Windows and leaves it elsewhere.\<close>

definition write_newlines :: "bool \<Rightarrow> str \<Rightarrow> str" where
  "write_newlines windows s =
     (if windows then concat (map (\<lambda>c. if c = 10 then [13, 10] else [c]) s) else s)"

text \<open>The bytes that writing the text \<open>s\<close> to a file opened with \<open>encoding="utf-8"\<close> puts
  there.\<close>

definition encode_text :: "bool \<Rightarrow> str \<Rightarrow> bytes" where
  "encode_text windows s = concat (map utf8_encode_cp (write_newlines windows s))"

section \<open>Persistent state and environment\<close>

text \<open>
  Nothing survives in memory between two invocations: the state is the session directory
  on disk, the process table and the multiplexer's session table. Session names are taken
  as given; two names are assumed not to collide as paths of the session directory.

  Opening a named pipe for writing returns only once some process has it open for
  reading. The supervisor that \<open>create\<close> starts is that process for as long as it runs;
  with no reader the open, and with it the operation, never returns. An operation that
  may not return has an \<open>option\<close> result, \<open>None\<close> standing for not returning.
\<close>

record session_info =
  info_name :: str
  info_pid :: int
  info_shell :: str
  info_created_at :: nat

record world =
  records :: "(str \<times> session_info) list"  \<comment> \<open>\<open>SESSION_DIR/<name>.json\<close>\<close>
  logs :: "str \<rightharpoonup> bytes"  \<comment> \<open>\<open>SESSION_DIR/<name>/output.log\<close>\<close>
  fifos :: "str set"  \<comment> \<open>names whose \<open>SESSION_DIR/<name>/stdin.fifo\<close> exists\<close>
  readers :: "str set"  \<comment> \<open>names whose named pipe a running supervisor holds open for reading\<close>
  pidfiles :: "str \<rightharpoonup> int"  \<comment> \<open>\<open>SESSION_DIR/<name>/daemon.pid\<close>\<close>
  files :: "str \<rightharpoonup> bytes"  \<comment> \<open>files outside the session directory, by path\<close>
  procs :: "int set"  \<comment> \<open>process ids for which \<open>os.kill(pid, 0)\<close> does not raise\<close>
  tmux_sessions :: "str set"  \<comment> \<open>names for which \<open>tmux has-session -t\<close> exits with 0\<close>

text \<open>
  What one invocation observes of its surroundings: the platform, the clock, and the
  outcomes of the external commands and file operations whose result the code branches on.
\<close>

record env =
  is_windows :: bool  \<comment> \<open>\<open>IS_WINDOWS\<close>\<close>
  check_tmux :: bool  \<comment> \<open>what \<open>_check_tmux()\<close> returns\<close>
  now_ms :: nat  \<comment> \<open>\<open>int(time.time() * 1000)\<close>\<close>
  new_session_ok :: bool  \<comment> \<open>\<open>tmux new-session\<close> exits with 0\<close>
  display_pid :: "nat option"  \<comment> \<open>the number \<open>display-message\<close> prints, if it prints digits only\<close>
  captures :: "nat \<Rightarrow> str"  \<comment> \<open>stdout of the k-th \<open>capture-pane\<close> of this invocation\<close>
  kill_stderr :: str  \<comment> \<open>stderr of a failing \<open>kill-session\<close>\<close>
  list_out :: "int \<times> str"  \<comment> \<open>exit code and stdout of \<open>list-sessions\<close>\<close>
  py_int :: "str \<Rightarrow> int option"  \<comment> \<open>the built-in \<open>int()\<close> on a string, \<open>None\<close> where it raises\<close>
  mkfifo_fails :: bool  \<comment> \<open>\<open>os.mkfifo\<close> raises \<open>OSError\<close>\<close>
  spawned_pid :: int  \<comment> \<open>process id of the new supervisor\<close>
  daemon_wrote_pid :: bool  \<comment> \<open>the supervisor has written \<open>daemon.pid\<close> when it is looked for\<close>
  fifo_write :: "exc option"  \<comment> \<open>what writing the named pipe, once opened, raises, if anything\<close>
  log_obs :: "nat \<Rightarrow> bytes"  \<comment> \<open>the log as the k-th look at it after the pipe write finds it\<close>
  oneshot_run :: "exc + str \<times> str"  \<comment> \<open>\<open>subprocess.run\<close> of the one-shot shell: stdout and stderr\<close>
  config_lookup :: "exc + str"  \<comment> \<open>reading \<open>--config\<close> and following \<open>--key\<close>: \<open>str(data)\<close>\<close>

text \<open>The subclasses of \<open>OSError\<close> (of which \<open>IOError\<close> is an alias).\<close>

definition is_OSError :: "exc \<Rightarrow> bool" where
  "is_OSError x \<longleftrightarrow> x = OSError \<or> x = FileNotFoundError \<or> x = PermissionError \<or> x = BrokenPipeError"

subsection \<open>Session Record Store\<close>

definition save_session_info :: "world \<Rightarrow> env \<Rightarrow> str \<Rightarrow> int \<Rightarrow> str \<Rightarrow> world" where
  "save_session_info w e nm p sh =
     w\<lparr>records := AList.update nm
          \<lparr>info_name = nm, info_pid = p, info_shell = sh, info_created_at = now_ms e\<rparr> (records w)\<rparr>"

definition load_session_info :: "world \<Rightarrow> str \<Rightarrow> session_info option" where
  "load_session_info w nm = map_of (records w) nm"

definition remove_session_info :: "world \<Rightarrow> str \<Rightarrow> world" where
  "remove_session_info w nm = w\<lparr>records := AList.delete nm (records w)\<rparr>"

text \<open>\<open>shell or default\<close>: \<open>None\<close> and the empty string are both falsy.\<close>

definition or_default :: "str option \<Rightarrow> str \<Rightarrow> str" where
  "or_default sh d = (case sh of None \<Rightarrow> d | Some s \<Rightarrow> if s = [] then d else s)"

section \<open>Multiplexer backend\<close>

definition TmuxBackend_create :: "world \<Rightarrow> env \<Rightarrow> str \<Rightarrow> str option \<Rightarrow> (exc + result) \<times> world" where
  "TmuxBackend_create w e nm sh =
     (if \<not> check_tmux e then (Inr (result False [(''error'', JMsg TmuxInstallFailed)]), w)
      else if nm \<in> tmux_sessions w
        then (Inr (result False [(''error'', JMsg (SessionExists nm))]), w)
      else let shell_cmd = or_default sh (ascii ''/bin/bash'') in
        if \<not> new_session_ok e then (Inl CalledProcessError, w)
        else let w1 = w\<lparr>tmux_sessions := insert nm (tmux_sessions w)\<rparr>;
                 p = (case display_pid e of Some n \<Rightarrow> int n | None \<Rightarrow> 0);
                 w2 = save_session_info w1 e nm p shell_cmd
             in (Inr (result True [(''session'', JStr nm), (''message'', JMsg (Created nm))]), w2))"

definition marker :: "env \<Rightarrow> str" where
  "marker e = ascii ''__CMD_'' @ dec (now_ms e) @ ascii ''__''"

definition START :: "str \<Rightarrow> str" where
  "START m = m @ ascii ''_START''"

definition END :: "str \<Rightarrow> str" where
  "END m = m @ ascii ''_END''"

text \<open>The inner loop over the captured lines, with its flag \<open>collecting\<close>.\<close>

fun collect :: "str \<Rightarrow> bool \<Rightarrow> str list \<Rightarrow> str list" where
  "collect m collecting [] = []"
| "collect m collecting (line # rest) =
     (if str_in (START m) line then collect m True rest
      else if str_in (END m) line then collect m False rest
      else if collecting then line # collect m collecting rest
      else collect m collecting rest)"

definition extract_output :: "str \<Rightarrow> str \<Rightarrow> str \<Rightarrow> str" where
  "extract_output m cmd captured =
     (let result_lines = collect m False (split_nl captured);
          result_lines = (if result_lines \<noteq> [] \<and> str_in (strip cmd) (hd result_lines)
                          then tl result_lines else result_lines)
      in rstrip (join_nl result_lines))"

text \<open>The polling loop \<open>for _ in range(timeout * 10)\<close>: \<open>k\<close> counts the captures taken so
  far, the last argument the iterations left. \<open>None\<close> is the loop's \<open>else\<close> branch.\<close>

fun poll_pane :: "(nat \<Rightarrow> str) \<Rightarrow> str \<Rightarrow> str \<Rightarrow> nat \<Rightarrow> nat \<Rightarrow> str option" where
  "poll_pane caps m cmd k 0 = None"
| "poll_pane caps m cmd k (Suc n) =
     (let captured = caps k in
      if str_in (END m) captured then Some (extract_output m cmd captured)
      else poll_pane caps m cmd (Suc k) n)"

definition TmuxBackend_exec_cmd :: "world \<Rightarrow> env \<Rightarrow> str \<Rightarrow> str \<Rightarrow> int \<Rightarrow> result" where
  "TmuxBackend_exec_cmd w e nm cmd timeout =
     (if nm \<notin> tmux_sessions w then result False [(''error'', JMsg (SessionNotFound nm))]
      else case poll_pane (captures e) (marker e) cmd 0 (nat (timeout * 10)) of
        None \<Rightarrow> result True [(''session'', JStr nm), (''output'', JStr []),
                               (''warning'', JMsg TimeoutTmux)]
      | Some output \<Rightarrow> result True [(''session'', JStr nm), (''output'', JStr output)])"

definition TmuxBackend_send :: "world \<Rightarrow> str \<Rightarrow> str \<Rightarrow> result" where
  "TmuxBackend_send w nm t =
     (if nm \<notin> tmux_sessions w then result False [(''error'', JMsg (SessionNotFound nm))]
      else result True [(''session'', JStr nm), (''message'', JMsg TextSent)])"

text \<open>The notice appended to a truncated read: a newline, \<open>... (\<close>, five Chinese
  characters and \<open>)\<close>.\<close>

definition truncation_notice :: str where
  "truncation_notice = nl # ascii ''... ('' @ [36755, 20986, 24050, 25130, 26029] @ ascii '')''"

definition TmuxBackend_read :: "world \<Rightarrow> env \<Rightarrow> str \<Rightarrow> int \<Rightarrow> int \<Rightarrow> str \<Rightarrow> result \<times> world" where
  "TmuxBackend_read w e nm lines max_chars output_file =
     (if nm \<notin> tmux_sessions w then (result False [(''error'', JMsg (SessionNotFound nm))], w)
      else let output = rstrip (captures e 0);
               output = (if max_chars > 0 \<and> int (length output) > max_chars
                         then last_n max_chars output @ truncation_notice else output)
           in if output_file \<noteq> []
              then (result True [(''session'', JStr nm), (''output_file'', JStr output_file),
                                 (''lines_count'', JNum (int (length (split_nl output))))],
                    w\<lparr>files := (files w)(output_file \<mapsto> encode_text (is_windows e) output)\<rparr>)
              else (result True [(''session'', JStr nm), (''output'', JStr output)], w))"

definition TmuxBackend_close :: "world \<Rightarrow> env \<Rightarrow> str \<Rightarrow> result \<times> world" where
  "TmuxBackend_close w e nm =
     (let killed = (nm \<in> tmux_sessions w);
          w1 = remove_session_info (w\<lparr>tmux_sessions := tmux_sessions w - {nm}\<rparr>) nm
      in if killed then (result True [(''session'', JStr nm), (''message'', JMsg (Closed nm))], w1)
         else (result False [(''error'', JMsg (CloseFailed (strip (kill_stderr e))))], w1))"

definition TmuxBackend_close_all :: "world \<Rightarrow> result \<times> world" where
  "TmuxBackend_close_all w =
     (result True [(''message'', JMsg AllClosed)], w\<lparr>tmux_sessions := {}, records := []\<rparr>)"

text \<open>One line of \<open>list-sessions\<close>: \<open>name|created|attached\<close>.\<close>

definition parse_session_line :: "env \<Rightarrow> str \<Rightarrow> exc + jval" where
  "parse_session_line e line =
     (let parts = split_on 124 line in
      case (if length parts > 1 then py_int e (parts ! 1) else Some 0) of
        None \<Rightarrow> Inl ValueError
      | Some created \<Rightarrow>
          Inr (JObj [(''name'', JStr (parts ! 0)), (''created'', JNum created),
                     (''attached'', JBool (if length parts > 2 then parts ! 2 = ascii ''1'' else False))]))"

fun parse_session_lines :: "env \<Rightarrow> str list \<Rightarrow> exc + jval list" where
  "parse_session_lines e [] = Inr []"
| "parse_session_lines e (line # rest) =
     (if line = [] then parse_session_lines e rest
      else case parse_session_line e line of
        Inl x \<Rightarrow> Inl x
      | Inr s \<Rightarrow> (case parse_session_lines e rest of Inl x \<Rightarrow> Inl x | Inr ss \<Rightarrow> Inr (s # ss)))"

definition TmuxBackend_list_sessions :: "env \<Rightarrow> exc + result" where
  "TmuxBackend_list_sessions e =
     (if \<not> check_tmux e then Inr (result True [(''sessions'', JList [])])
      else if fst (list_out e) \<noteq> 0 then Inr (result True [(''sessions'', JList [])])
      else case parse_session_lines e (split_nl (strip (snd (list_out e)))) of
        Inl x \<Rightarrow> Inl x
      | Inr sessions \<Rightarrow> Inr (result True [(''sessions'', JList sessions)]))"

section \<open>Pipe/daemon backend\<close>

definition SubprocessBackend_create :: "world \<Rightarrow> env \<Rightarrow> str \<Rightarrow> str option \<Rightarrow> (exc + result) \<times> world" where
  "SubprocessBackend_create w e nm sh =
     (let info = load_session_info w nm in
      case (case info of None \<Rightarrow> None
            | Some i \<Rightarrow> if info_pid i \<in> procs w then Some (info_pid i) else None) of
        Some p \<Rightarrow> (Inr (result False [(''error'', JMsg (SessionExistsPid nm p))]), w)
      | None \<Rightarrow>
          let w0 = (case info of None \<Rightarrow> w | Some i \<Rightarrow> remove_session_info w nm);
              w1 = w0\<lparr>logs := (logs w0)(nm \<mapsto> [])\<rparr>
          in if is_windows e
             then (Inr (result True [(''session'', JStr nm), (''message'', JMsg (CreatedStandalone nm)),
                                     (''backend'', JStr (ascii ''subprocess-windows''))]),
                   save_session_info w1 e nm 0 (or_default sh (ascii ''cmd.exe'')))
             else let shell_cmd = or_default sh (ascii ''/bin/bash'');
                      w2 = w1\<lparr>fifos := fifos w1 - {nm}, readers := readers w1 - {nm}\<rparr>
                  in if mkfifo_fails e then (Inl OSError, w2)
                     else let w3 = w2\<lparr>fifos := insert nm (fifos w2),
                                        readers := insert nm (readers w2),
                                        procs := insert (spawned_pid e) (procs w2),
                                        pidfiles := (if daemon_wrote_pid e
                                                     then (pidfiles w2)(nm \<mapsto> spawned_pid e)
                                                     else pidfiles w2)\<rparr>;
                              daemon_pid = (case pidfiles w3 nm of Some p \<Rightarrow> p | None \<Rightarrow> spawned_pid e)
                          in (Inr (result True [(''session'', JStr nm),
                                                (''message'', JMsg (CreatedPid nm daemon_pid)),
                                                (''backend'', JStr (ascii ''subprocess-fifo''))]),
                              save_session_info w3 e nm daemon_pid shell_cmd))"

text \<open>\<open>_exec_via_new_process\<close>: the one-shot fallback. Its last parameter is not used by
  the source either.\<close>

definition exec_via_new_process :: "world \<Rightarrow> env \<Rightarrow> str \<Rightarrow> str \<Rightarrow> int \<Rightarrow> nat \<Rightarrow> result \<times> world" where
  "exec_via_new_process w e nm cmd timeout before_size =
     (case oneshot_run e of
        Inr (out, err) \<Rightarrow>
          let output = out @ err;
              old = (case logs w nm of None \<Rightarrow> [] | Some l \<Rightarrow> l)
          in (result True [(''session'', JStr nm), (''output'', JStr (rstrip output)),
                           (''note'', JMsg ViaNewProcess)],
              w\<lparr>logs := (logs w)(nm \<mapsto>
                   old @ encode_text (is_windows e) (ascii ''$ '' @ cmd @ [nl] @ output @ [nl]))\<rparr>)
      | Inl x \<Rightarrow>
          if x = TimeoutExpired
          then (result True [(''session'', JStr nm), (''output'', JStr []),
                             (''warning'', JMsg TimeoutOneShot)], w)
          else (result False [(''error'', JMsg (ExcText x))], w))"

text \<open>The wait loop of the pipe path: \<open>k\<close> counts the looks at the log taken so far, the
  last argument the iterations left; the value is the number of looks taken when the loop
  ends, by \<open>break\<close> or by exhaustion.\<close>

fun wait_output :: "(nat \<Rightarrow> bytes) \<Rightarrow> nat \<Rightarrow> nat \<Rightarrow> nat \<Rightarrow> nat" where
  "wait_output obs before_size k 0 = k"
| "wait_output obs before_size k (Suc n) =
     (let current_size = st_size (obs k) in
      if current_size > before_size
      then (let final_size = st_size (obs (Suc k)) in
            if final_size = current_size then Suc (Suc k)
            else wait_output obs before_size (Suc (Suc k)) n)
      else wait_output obs before_size (Suc k) n)"

definition SubprocessBackend_exec_cmd ::
  "world \<Rightarrow> env \<Rightarrow> str \<Rightarrow> str \<Rightarrow> int \<Rightarrow> ((exc + result) \<times> world) option" where
  "SubprocessBackend_exec_cmd w e nm cmd timeout =
     (case load_session_info w nm of
        None \<Rightarrow> Some (Inr (result False [(''error'', JMsg (SessionNotFound nm))]), w)
      | Some info \<Rightarrow>
         (case logs w nm of
            None \<Rightarrow> Some (Inr (result False [(''error'', JMsg (LogMissing nm))]), w)
          | Some log \<Rightarrow>
              if info_pid info > 0 \<and> info_pid info \<notin> procs w
              then Some (map_prod Inr id (exec_via_new_process w e nm cmd timeout (st_size log)))
              else let before_size = st_size log in
                if is_windows e \<or> nm \<notin> fifos w
                then Some (map_prod Inr id (exec_via_new_process w e nm cmd timeout before_size))
                else if nm \<notin> readers w then None
                else (case fifo_write e of
                        Some x \<Rightarrow>
                          if is_OSError x
                          then Some (map_prod Inr id
                                 (exec_via_new_process w e nm cmd timeout before_size))
                          else Some (Inl x, w)
                      | None \<Rightarrow>
                          let k = wait_output (log_obs e) before_size 0 (nat (timeout * 10));
                              w' = w\<lparr>logs := (logs w)(nm \<mapsto> log_obs e k)\<rparr>
                          in (case read_text (log_obs e k) of
                                Inl x \<Rightarrow> Some (Inl x, w')
                              | Inr content \<Rightarrow>
                                  let new_output = rstrip (drop before_size content)
                                  in Some (Inr (result True [(''session'', JStr nm),
                                                             (''output'', JStr new_output)]),
                                           w')))))"

definition SubprocessBackend_send :: "world \<Rightarrow> env \<Rightarrow> str \<Rightarrow> str \<Rightarrow> (exc + result) option" where
  "SubprocessBackend_send w e nm t =
     (if nm \<notin> fifos w then Some (Inr (result False [(''error'', JMsg (NoFifo nm))]))
      else if nm \<notin> readers w then None
      else case fifo_write e of
        None \<Rightarrow> Some (Inr (result True [(''session'', JStr nm), (''message'', JMsg TextSent)]))
      | Some x \<Rightarrow>
          if is_OSError x then Some (Inr (result False [(''error'', JMsg (ExcText x))]))
          else Some (Inl x))"

definition SubprocessBackend_read ::
  "world \<Rightarrow> env \<Rightarrow> str \<Rightarrow> int \<Rightarrow> str \<Rightarrow> (exc + result) \<times> world" where
  "SubprocessBackend_read w e nm lines output_file =
     (case logs w nm of
        None \<Rightarrow> (Inr (result False [(''error'', JMsg (SessionNotFound nm))]), w)
      | Some f \<Rightarrow>
         (case read_text f of
            Inl x \<Rightarrow> (Inl x, w)
          | Inr content \<Rightarrow>
              let last_lines = join_nl (last_n lines (split_nl content));
                  output = rstrip last_lines
              in if output_file \<noteq> []
                 then (Inr (result True [(''session'', JStr nm), (''output_file'', JStr output_file),
                                         (''lines_count'', JNum (int (length (split_nl output))))]),
                       w\<lparr>files := (files w)(output_file \<mapsto> encode_text (is_windows e) output)\<rparr>)
                 else (Inr (result True [(''session'', JStr nm), (''output'', JStr output)]), w)))"

definition SubprocessBackend_list_sessions :: "world \<Rightarrow> result" where
  "SubprocessBackend_list_sessions w =
     result True [(''sessions'', JList (map (\<lambda>(k, info).
        JObj [(''name'', JStr (info_name info)), (''pid'', JNum (info_pid info)),
              (''shell'', JStr (info_shell info)), (''created_at'', JNum (int (info_created_at info))),
              (''alive'', JBool (info_pid info > 0 \<and> info_pid info \<in> procs w))]) (records w)))]"

text \<open>\<open>close\<close>: the exit sentinel makes the supervisor leave its loop, and the signal ends
  the recorded process; either way the pipe has no reader afterwards.\<close>

definition SubprocessBackend_close ::
  "world \<Rightarrow> env \<Rightarrow> str \<Rightarrow> ((exc + result) \<times> world) option" where
  "SubprocessBackend_close w e nm =
     (case load_session_info w nm of
        None \<Rightarrow> Some (Inr (result False [(''error'', JMsg (SessionNotFound nm))]), w)
      | Some info \<Rightarrow>
          if \<not> is_windows e \<and> nm \<in> fifos w \<and> nm \<notin> readers w then None
          else
            let written = (if \<not> is_windows e \<and> nm \<in> fifos w then fifo_write e else None) in
            case (case written of None \<Rightarrow> None
                  | Some x \<Rightarrow> if is_OSError x then None else Some x) of
              Some x \<Rightarrow> Some (Inl x, w)
            | None \<Rightarrow>
                let w1 = (if info_pid info > 0 then w\<lparr>procs := procs w - {info_pid info}\<rparr> else w);
                    w2 = remove_session_info w1 nm;
                    w3 = w2\<lparr>logs := (logs w2)(nm := None), fifos := fifos w2 - {nm},
                            readers := readers w2 - {nm},
                            pidfiles := (pidfiles w2)(nm := None)\<rparr>
                in Some (Inr (result True [(''session'', JStr nm), (''message'', JMsg (Closed nm))]),
                         w3))"

definition SubprocessBackend_close_all :: "world \<Rightarrow> result \<times> world" where
  "SubprocessBackend_close_all w =
     (result True [(''message'', JMsg AllClosed)],
      w\<lparr>procs := procs w - set (filter (\<lambda>p. p > 0) (map (\<lambda>(k, info). info_pid info) (records w))),
        records := [], logs := Map.empty, fifos := {}, readers := {},
        pidfiles := Map.empty\<rparr>)"

section \<open>Command-line entry\<close>

datatype backend = TmuxBackend | SubprocessBackend

text \<open>\<open>_get_backend\<close>: the multiplexer when it is available and the platform has it.\<close>

definition get_backend :: "env \<Rightarrow> backend" where
  "get_backend e = (if \<not> is_windows e \<and> check_tmux e then TmuxBackend else SubprocessBackend)"

text \<open>
  \<open>main\<close> calls \<open>backend.read(args.name, args.lines, max_chars, output_file)\<close> with four
  positional arguments, whichever backend was chosen. A call is modelled by binding the
  list of positional arguments to the parameters the method declares, defaults filling
  the missing ones; a list that cannot be bound raises \<open>TypeError\<close>.
\<close>

datatype pyval = PStr str | PInt int

definition TmuxBackend_read_call :: "world \<Rightarrow> env \<Rightarrow> pyval list \<Rightarrow> (exc + result) \<times> world" where
  "TmuxBackend_read_call w e args =
     (case args of
        [PStr nm] \<Rightarrow> map_prod Inr id (TmuxBackend_read w e nm 30 2000 [])
      | [PStr nm, PInt lines] \<Rightarrow> map_prod Inr id (TmuxBackend_read w e nm lines 2000 [])
      | [PStr nm, PInt lines, PInt max_chars] \<Rightarrow>
          map_prod Inr id (TmuxBackend_read w e nm lines max_chars [])
      | [PStr nm, PInt lines, PInt max_chars, PStr output_file] \<Rightarrow>
          map_prod Inr id (TmuxBackend_read w e nm lines max_chars output_file)
      | _ \<Rightarrow> (Inl TypeError, w))"

definition SubprocessBackend_read_call ::
  "world \<Rightarrow> env \<Rightarrow> pyval list \<Rightarrow> (exc + result) \<times> world" where
  "SubprocessBackend_read_call w e args =
     (case args of
        [PStr nm] \<Rightarrow> SubprocessBackend_read w e nm 50 []
      | [PStr nm, PInt lines] \<Rightarrow> SubprocessBackend_read w e nm lines []
      | [PStr nm, PInt lines, PStr output_file] \<Rightarrow> SubprocessBackend_read w e nm lines output_file
      | _ \<Rightarrow> (Inl TypeError, w))"

text \<open>
  The subcommands with their parsed arguments. \<open>create\<close> is the creation itself; the
  attachment that follows it in foreground mode, and \<open>attach\<close>, are not modelled.
\<close>

datatype action =
    Create str "str option"
  | Exec str str int
  | Read str int int str
  | ListSessions
  | Close str
  | CloseAll
  | Send str "str option" "str option" "str option"

definition truthy :: "str option \<Rightarrow> bool" where
  "truthy s = (case s of None \<Rightarrow> False | Some t \<Rightarrow> t \<noteq> [])"

definition backend_name :: "backend \<Rightarrow> str" where
  "backend_name b = (case b of TmuxBackend \<Rightarrow> ascii ''TmuxBackend''
                     | SubprocessBackend \<Rightarrow> ascii ''SubprocessBackend'')"

definition backend_send :: "backend \<Rightarrow> world \<Rightarrow> env \<Rightarrow> str \<Rightarrow> str \<Rightarrow> (exc + result) option" where
  "backend_send b w e nm t =
     (case b of TmuxBackend \<Rightarrow> Some (Inr (TmuxBackend_send w nm t))
      | SubprocessBackend \<Rightarrow> SubprocessBackend_send w e nm t)"

text \<open>\<open>main\<close>: what the invocation prints (or the exception that ends it) and the state it
  leaves; \<open>None\<close> when the invocation never returns.\<close>

definition main :: "world \<Rightarrow> env \<Rightarrow> action option \<Rightarrow> ((exc + result) \<times> world) option" where
  "main w e act =
     (let b = get_backend e in
      case act of
        None \<Rightarrow> Some (Inr (result False [(''error'', JMsg NeedCommand)]), w)
      | Some (Create nm sh) \<Rightarrow>
          (case b of TmuxBackend \<Rightarrow> Some (TmuxBackend_create w e nm sh)
           | SubprocessBackend \<Rightarrow> Some (SubprocessBackend_create w e nm sh))
      | Some (Exec nm cmd timeout) \<Rightarrow>
          (case b of TmuxBackend \<Rightarrow> Some (Inr (TmuxBackend_exec_cmd w e nm cmd timeout), w)
           | SubprocessBackend \<Rightarrow> SubprocessBackend_exec_cmd w e nm cmd timeout)
      | Some (Read nm lines max_chars output_file) \<Rightarrow>
          (case b of
             TmuxBackend \<Rightarrow>
               Some (TmuxBackend_read_call w e
                       [PStr nm, PInt lines, PInt max_chars, PStr output_file])
           | SubprocessBackend \<Rightarrow>
               Some (SubprocessBackend_read_call w e
                       [PStr nm, PInt lines, PInt max_chars, PStr output_file]))
      | Some ListSessions \<Rightarrow>
          (case (case b of TmuxBackend \<Rightarrow> TmuxBackend_list_sessions e
                 | SubprocessBackend \<Rightarrow> Inr (SubprocessBackend_list_sessions w)) of
             Inl x \<Rightarrow> Some (Inl x, w)
           | Inr r \<Rightarrow> Some (Inr (r @ [(''backend'', JStr (backend_name b))]), w))
      | Some (Close nm) \<Rightarrow>
          (case b of TmuxBackend \<Rightarrow> Some (map_prod Inr id (TmuxBackend_close w e nm))
           | SubprocessBackend \<Rightarrow> SubprocessBackend_close w e nm)
      | Some CloseAll \<Rightarrow>
          (case b of TmuxBackend \<Rightarrow> Some (map_prod Inr id (TmuxBackend_close_all w))
           | SubprocessBackend \<Rightarrow> Some (map_prod Inr id (SubprocessBackend_close_all w)))
      | Some (Send nm t config key) \<Rightarrow>
          if truthy config \<and> truthy key
          then (case config_lookup e of
                  Inl x \<Rightarrow>
                    if x = FileNotFoundError \<or> x = KeyError \<or> x = TypeError
                    then Some (Inr (result False [(''error'', JMsg (ConfigFailed x))]), w)
                    else Some (Inl x, w)
                | Inr data \<Rightarrow> map_option (\<lambda>r. (r, w)) (backend_send b w e nm data))
          else (case t of
                  None \<Rightarrow> Some (Inr (result False [(''error'', JMsg NeedText)]), w)
                | Some t' \<Rightarrow> map_option (\<lambda>r. (r, w)) (backend_send b w e nm t')))"

section \<open>Reading results, and concrete states for the examples\<close>

definition field :: "result \<Rightarrow> string \<Rightarrow> jval option" where
  "field r k = map_of r k"

definition world_empty :: world where
  "world_empty =
     \<lparr>records = [], logs = Map.empty, fifos = {}, readers = {}, pidfiles = Map.empty,
      files = Map.empty, procs = {}, tmux_sessions = {}\<rparr>"

text \<open>What a pane shows after \<open>ls\<close> was run between the two sentinels at clock reading 7.\<close>

definition pane_example :: str where
  "pane_example =
     ascii ''$ echo '' @ [39] @ ascii ''__CMD_7___START'' @ [39, nl] @
     ascii ''__CMD_7___START'' @ [nl] @
     ascii ''$ ls'' @ [nl] @
     ascii ''notes.txt'' @ [nl] @
     ascii ''$ echo '' @ [39] @ ascii ''__CMD_7___END'' @ [39, nl] @
     ascii ''__CMD_7___END'' @ [nl] @
     ascii ''$ ''"

text \<open>A pane in which the start sentinel shows again after the end sentinel.\<close>

definition pane_resumed :: str where
  "pane_resumed =
     ascii ''__CMD_7___START'' @ [nl] @
     ascii ''$ ls'' @ [nl] @
     ascii ''a'' @ [nl] @
     ascii ''__CMD_7___END'' @ [nl] @
     ascii ''b'' @ [nl] @
     ascii ''__CMD_7___START'' @ [nl] @
     ascii ''c''"

definition env_example :: env where
  "env_example =
     \<lparr>is_windows = False, check_tmux = True, now_ms = 7, new_session_ok = True,
      display_pid = Some 100, captures = (\<lambda>k. if k = 0 then [] else pane_example),
      kill_stderr = ascii ''no such session'', list_out = (1, []), py_int = (\<lambda>s. None),
      mkfifo_fails = False, spawned_pid = 42, daemon_wrote_pid = True, fifo_write = None,
      log_obs = (\<lambda>k. []), oneshot_run = Inr (ascii ''hi'' @ [nl], []),
      config_lookup = Inl KeyError\<rparr>"

text \<open>A record of session \<open>s1\<close> with supervisor 42, and states around it: the supervisor
  gone but log and pipe left behind; the supervisor running; a record with no log (as the
  multiplexer backend leaves it).\<close>

definition info_example :: session_info where
  "info_example =
     \<lparr>info_name = ascii ''s1'', info_pid = 42, info_shell = ascii ''/bin/bash'',
      info_created_at = 5\<rparr>"

definition world_stale :: world where
  "world_stale =
     world_empty\<lparr>records := [(ascii ''s1'', info_example)],
                 logs := [ascii ''s1'' \<mapsto> ascii ''old'' @ [nl]],
                 fifos := {ascii ''s1''}\<rparr>"

definition world_live :: world where
  "world_live = world_stale\<lparr>procs := {42}, readers := {ascii ''s1''}\<rparr>"

definition world_no_log :: world where
  "world_no_log = world_empty\<lparr>records := [(ascii ''s1'', info_example)]\<rparr>"


text \<open>A platform with named pipes where the multiplexer is missing, so that the
  pipe/daemon backend is selected.\<close>

definition env_pipe :: env where
  "env_pipe = env_example\<lparr>check_tmux := False\<rparr>"

text \<open>The same, with a command that prints nothing while it is waited for: every look
  finds the log of \<open>s1\<close> as it was.\<close>

definition env_silent :: env where
  "env_silent = env_pipe\<lparr>log_obs := (\<lambda>k. ascii ''old'' @ [nl])\<rparr>"

text \<open>The same, with a command that keeps printing: the log is one \<open>y\<close> longer at every
  look.\<close>

definition env_busy :: env where
  "env_busy = env_pipe\<lparr>log_obs := (\<lambda>k. ascii ''old'' @ [nl] @ replicate (Suc k) 121)\<rparr>"

text \<open>The same, with a command whose output \<open>hi\<close> is in a log that was empty before, at
  every look.\<close>

definition env_hi :: env where
  "env_hi = env_pipe\<lparr>log_obs := (\<lambda>k. ascii ''hi'' @ [nl])\<rparr>"

text \<open>The no-pipe platform, where every command runs one-shot.\<close>

definition env_windows :: env where
  "env_windows = env_example\<lparr>is_windows := True, check_tmux := False\<rparr>"
section \<open>Facts about the text primitives\<close>

lemma str_in_sublist: "str_in a b \<longleftrightarrow> sublist a b"
  by (induction b) (auto simp: sublist_Cons_right)

lemma split_on_nonempty: "split_on sep s \<noteq> []"
  by (induction s) (auto split: list.splits)

lemma split_on_append:
  "split_on sep (xs @ sep # ys) = split_on sep xs @ split_on sep ys"
  by (induction xs) (auto split: list.splits simp: split_on_nonempty)

lemma join_split_nl: "join_nl (split_nl s) = s"
  unfolding split_nl_def
proof (induction s)
  case Nil
  then show ?case by simp
next
  case (Cons c cs)
  then show ?case
    by (cases "split_on nl cs" rule: join_nl.cases) (auto simp: split_on_nonempty)
qed

lemma join_nl_sublist: "l \<in> set ls \<Longrightarrow> sublist l (join_nl ls)"
proof (induction ls rule: join_nl.induct)
  case 1
  then show ?case by simp
next
  case (2 l)
  then show ?case by simp
next
  case (3 l v va)
  then show ?case
    by (auto simp: sublist_append sublist_Cons_right)
qed

lemma split_nl_line_sublist: "l \<in> set (split_nl s) \<Longrightarrow> sublist l s"
  using join_nl_sublist [of l "split_nl s"] by (simp add: join_split_nl)

lemma sublist_rstrip: "sublist (rstrip s) s"
  unfolding rstrip_def
  by (metis prefix_imp_sublist rev_rev_ident suffix_dropWhile suffix_to_prefix)

lemma sublist_strip: "sublist (strip s) s"
  unfolding strip_def 
  by (meson sublist_order.order_trans sublist_rstrip suffix_dropWhile suffix_imp_sublist)

lemma str_in_strip: "str_in cmd l \<Longrightarrow> str_in (strip cmd) l"
  unfolding str_in_sublist using sublist_strip sublist_order.order_trans by blast

section \<open>Facts about the extraction and polling loops\<close>

lemma collect_skip:
  "\<forall>l\<in>set pre. \<not> str_in (START m) l \<Longrightarrow> collect m False (pre @ rest) = collect m False rest"
  by (induction pre) auto

lemma collect_none:
  "\<forall>l\<in>set post. \<not> str_in (START m) l \<Longrightarrow> collect m False post = []"
  by (induction post) auto

lemma collect_between:
  "\<forall>l\<in>set mid. str_in (END m) l \<longrightarrow> str_in (START m) l \<Longrightarrow>
   collect m True (mid @ rest) = filter (\<lambda>l. \<not> str_in (START m) l) mid @ collect m True rest"
  by (induction mid) auto

lemma collect_shape:
  assumes "\<forall>l\<in>set pre. \<not> str_in (START m) l"
    and "str_in (START m) s"
    and "\<forall>l\<in>set mid. str_in (END m) l \<longrightarrow> str_in (START m) l"
    and "str_in (END m) t" and "\<not> str_in (START m) t"
    and "\<forall>l\<in>set post. \<not> str_in (START m) l"
  shows "collect m False (pre @ [s] @ mid @ [t] @ post) = filter (\<lambda>l. \<not> str_in (START m) l) mid"
proof -
  have "collect m False (pre @ [s] @ mid @ [t] @ post) = collect m False ([s] @ mid @ [t] @ post)"
    using assms(1) by (rule collect_skip)
  also have "\<dots> = collect m True (mid @ [t] @ post)"
    using assms(2) by simp
  also have "\<dots> = filter (\<lambda>l. \<not> str_in (START m) l) mid @ collect m True ([t] @ post)"
    using assms(3) by (rule collect_between)
  also have "collect m True ([t] @ post) = collect m False post"
    using assms(4,5) by simp
  also have "\<dots> = []"
    using assms(6) by (rule collect_none)
  finally show ?thesis by simp
qed

lemma poll_pane_found:
  "\<forall>j<k. \<not> str_in (END m) (caps (i + j)) \<Longrightarrow> str_in (END m) (caps (i + k)) \<Longrightarrow> k < n \<Longrightarrow>
   poll_pane caps m cmd i n = Some (extract_output m cmd (caps (i + k)))"
proof (induction n arbitrary: i k)
  case 0
  then show ?case by simp
next
  case (Suc n)
  show ?case
  proof (cases k)
    case 0
    with Suc.prems show ?thesis by simp
  next
    case (Suc k')
    have first: "\<not> str_in (END m) (caps i)"
      using Suc.prems(1) Suc by (metis add.right_neutral zero_less_Suc)
    have "poll_pane caps m cmd (Suc i) n = Some (extract_output m cmd (caps (Suc i + k')))"
    proof (rule Suc.IH)
      show "\<forall>j<k'. \<not> str_in (END m) (caps (Suc i + j))"
        using Suc.prems(1) Suc by (metis Suc_less_eq add_Suc_shift)
      show "str_in (END m) (caps (Suc i + k'))" using Suc.prems(2) Suc by simp
      show "k' < n" using Suc.prems(3) Suc by simp
    qed
    with first Suc show ?thesis by simp
  qed
qed

lemma poll_pane_timeout:
  "\<forall>j<n. \<not> str_in (END m) (caps (i + j)) \<Longrightarrow> poll_pane caps m cmd i n = None"
proof (induction n arbitrary: i)
  case 0
  then show ?case by simp
next
  case (Suc n)
  have "\<not> str_in (END m) (caps i)"
    using Suc.prems by (metis add.right_neutral zero_less_Suc)
  moreover have "poll_pane caps m cmd (Suc i) n = None"
  proof (rule Suc.IH)
    show "\<forall>j<n. \<not> str_in (END m) (caps (Suc i + j))"
      using Suc.prems by (metis Suc_less_eq add_Suc_shift)
  qed
  ultimately show ?case by simp
qed

section \<open>Facts about files\<close>

lemma utf8_decode_length: "utf8_decode bs = Some s \<Longrightarrow> length s \<le> length bs"
proof (induction bs arbitrary: s rule: utf8_decode.induct)
  case 1
  then show ?case by simp
next
  case (2 b bs)
  then show ?case
    by (auto simp: Let_def split: if_splits list.splits) fastforce+
qed

lemma universal_newlines_length: "length (universal_newlines s) \<le> length s"
  by (induction s rule: universal_newlines.induct) (auto split: list.splits)

text \<open>A text never has more characters than its file has bytes.\<close>

lemma read_text_length: "read_text f = Inr s \<Longrightarrow> length s \<le> st_size f"
  using utf8_decode_length [of f] universal_newlines_length
  by (auto simp: read_text_def st_size_def split: option.splits intro: order_trans)

lemma rstrip_Nil: "rstrip [] = []"
  by (simp add: rstrip_def)

lemma utf8_decode_ascii: "\<forall>b\<in>set bs. b < 128 \<Longrightarrow> utf8_decode bs = Some bs"
  by (induction bs) simp_all

lemma universal_newlines_id: "13 \<notin> set s \<Longrightarrow> universal_newlines s = s"
  by (induction s rule: universal_newlines.induct) simp_all

text \<open>A file of ASCII bytes without carriage return reads as the same text.\<close>

lemma read_text_ascii: "\<forall>b\<in>set f. b < 128 \<and> b \<noteq> 13 \<Longrightarrow> read_text f = Inr f"
proof -
  assume a: "\<forall>b\<in>set f. b < 128 \<and> b \<noteq> 13"
  then have "utf8_decode f = Some f" by (intro utf8_decode_ascii) simp
  moreover from a have "universal_newlines f = f" by (intro universal_newlines_id) auto
  ultimately show ?thesis by (simp add: read_text_def)
qed

section \<open>The entry point, one subcommand at a time\<close>


lemma main_Create:
  "main w e (Some (Create nm sh)) =
     (case get_backend e of TmuxBackend \<Rightarrow> Some (TmuxBackend_create w e nm sh)
      | SubprocessBackend \<Rightarrow> Some (SubprocessBackend_create w e nm sh))"
  unfolding main_def Let_def by simp

lemma main_Exec:
  "main w e (Some (Exec nm cmd timeout)) =
     (case get_backend e of TmuxBackend \<Rightarrow> Some (Inr (TmuxBackend_exec_cmd w e nm cmd timeout), w)
      | SubprocessBackend \<Rightarrow> SubprocessBackend_exec_cmd w e nm cmd timeout)"
  unfolding main_def Let_def by simp

lemma main_Read:
  "main w e (Some (Read nm lines max_chars output_file)) =
     (case get_backend e of
        TmuxBackend \<Rightarrow>
          Some (TmuxBackend_read_call w e [PStr nm, PInt lines, PInt max_chars, PStr output_file])
      | SubprocessBackend \<Rightarrow>
          Some (SubprocessBackend_read_call w e
                  [PStr nm, PInt lines, PInt max_chars, PStr output_file]))"
  unfolding main_def Let_def by simp





lemma TmuxBackend_read_call_4:
  "TmuxBackend_read_call w e [PStr nm, PInt lines, PInt max_chars, PStr output_file] =
     map_prod Inr id (TmuxBackend_read w e nm lines max_chars output_file)"
  by (simp add: TmuxBackend_read_call_def)

lemma SubprocessBackend_read_call_4:
  "SubprocessBackend_read_call w e [PStr nm, PInt lines, PInt max_chars, PStr output_file] =
     (Inl TypeError, w)"
  by (simp add: SubprocessBackend_read_call_def)

lemma tmux_selected: "get_backend e = TmuxBackend \<Longrightarrow> check_tmux e"
  by (simp add: get_backend_def split: if_splits)

section \<open>Command execution on the multiplexer backend\<close>

text \<open>
  C4, as amended. When the pane text captured by a poll holds a start-sentinel line and,
  after it, an end-sentinel line, with no line bearing the start sentinel before the first
  or after the second, and no line between them bearing the end sentinel alone,
  \<open>execCommand\<close> on the multiplexer backend returns exactly the lines strictly between the
  two, lines that bear a sentinel left out, the leading one dropped when it contains the
  command text (the echo of the typed input; the test is made on the command stripped of
  surrounding white space, which a line containing the command text passes), joined with
  newlines and right-stripped.
\<close>

theorem tmux_exec_returns_lines_between_sentinels:
  assumes live: "nm \<in> tmux_sessions w"
    and found: "k < nat (timeout * 10)" "\<forall>j<k. \<not> str_in (END (marker e)) (captures e j)"
    and shape: "split_nl (captures e k) = pre @ [s] @ mid @ [t] @ post"
    and pre: "\<forall>l\<in>set pre. \<not> str_in (START (marker e)) l"
    and s: "str_in (START (marker e)) s"
    and mid: "\<forall>l\<in>set mid. str_in (END (marker e)) l \<longrightarrow> str_in (START (marker e)) l"
    and t: "str_in (END (marker e)) t" "\<not> str_in (START (marker e)) t"
    and post: "\<forall>l\<in>set post. \<not> str_in (START (marker e)) l"
    and between: "between = filter (\<lambda>l. \<not> str_in (START (marker e)) l) mid"
  shows "TmuxBackend_exec_cmd w e nm cmd timeout =
           result True [(''session'', JStr nm),
             (''output'', JStr (rstrip (join_nl
                (if between \<noteq> [] \<and> str_in (strip cmd) (hd between)
                 then tl between else between))))] \<and>
         (between \<noteq> [] \<and> str_in cmd (hd between) \<longrightarrow>
            TmuxBackend_exec_cmd w e nm cmd timeout =
              result True [(''session'', JStr nm),
                (''output'', JStr (rstrip (join_nl (tl between))))])"
proof -
  let ?m = "marker e"
  have "t \<in> set (split_nl (captures e k))" using shape by simp
  then have "sublist t (captures e k)" by (rule split_nl_line_sublist)
  moreover have "sublist (END ?m) t" using t(1) by (simp add: str_in_sublist)
  ultimately have hit: "str_in (END ?m) (captures e k)"
    unfolding str_in_sublist using sublist_order.order_trans by blast
  have "poll_pane (captures e) ?m cmd 0 (nat (timeout * 10)) =
          Some (extract_output ?m cmd (captures e (0 + k)))"
    by (rule poll_pane_found) (use found hit in simp_all)
  moreover have "collect ?m False (split_nl (captures e k)) = between"
    unfolding shape between using pre s mid t post by (rule collect_shape)
  ultimately have "poll_pane (captures e) ?m cmd 0 (nat (timeout * 10)) =
      Some (rstrip (join_nl
        (if between \<noteq> [] \<and> str_in (strip cmd) (hd between) then tl between else between)))"
    by (simp add: extract_output_def)
  then have main_eq: "TmuxBackend_exec_cmd w e nm cmd timeout =
           result True [(''session'', JStr nm),
             (''output'', JStr (rstrip (join_nl
                (if between \<noteq> [] \<and> str_in (strip cmd) (hd between)
                 then tl between else between))))]"
    using live by (simp add: TmuxBackend_exec_cmd_def)
  then show ?thesis
    using str_in_strip by simp
qed

theorem tmux_exec_returns_lines_between_sentinels_witness:
  "TmuxBackend_exec_cmd (world_empty\<lparr>tmux_sessions := {ascii ''s1''}\<rparr>) env_example
     (ascii ''s1'') (ascii ''ls'') 10 =
   result True [(''session'', JStr (ascii ''s1'')), (''output'', JStr (ascii ''notes.txt''))]"
proof -
  let ?m = "marker env_example"
  let ?s = "ascii ''$ echo '' @ [39] @ ascii ''__CMD_7___START'' @ [39]"
  let ?mid = "[ascii ''__CMD_7___START'', ascii ''$ ls'', ascii ''notes.txt'']"
  let ?t = "ascii ''$ echo '' @ [39] @ ascii ''__CMD_7___END'' @ [39]"
  let ?post = "[ascii ''__CMD_7___END'', ascii ''$ '']"
  let ?between = "[ascii ''$ ls'', ascii ''notes.txt'']"
  have m: "?m = ascii ''__CMD_7__''"
    by (simp add: marker_def env_example_def dec.simps ascii_def)
  have live: "ascii ''s1'' \<in> tmux_sessions (world_empty\<lparr>tmux_sessions := {ascii ''s1''}\<rparr>)"
    by simp
  have found: "(1::nat) < nat (10 * 10)" by simp
  have before: "\<forall>j<(1::nat). \<not> str_in (END ?m) (captures env_example j)"
    by (simp add: env_example_def END_def ascii_def)
  have shape: "split_nl (captures env_example 1) = [] @ [?s] @ ?mid @ [?t] @ ?post"
    by (simp add: env_example_def pane_example_def split_nl_def ascii_def nl_def)
  have pre: "\<forall>l\<in>set []. \<not> str_in (START ?m) l" by simp
  have s: "str_in (START ?m) ?s"
    unfolding m by (simp add: START_def ascii_def)
  have mid: "\<forall>l\<in>set ?mid. str_in (END ?m) l \<longrightarrow> str_in (START ?m) l"
    unfolding m by (simp add: START_def END_def ascii_def)
  have t: "str_in (END ?m) ?t" "\<not> str_in (START ?m) ?t"
    unfolding m by (simp_all add: START_def END_def ascii_def)
  have post: "\<forall>l\<in>set ?post. \<not> str_in (START ?m) l"
    unfolding m by (simp add: START_def ascii_def)
  have between: "?between = filter (\<lambda>l. \<not> str_in (START ?m) l) ?mid"
    unfolding m by (simp add: START_def ascii_def)
  have echo: "str_in (strip (ascii ''ls'')) (hd ?between)"
    by (simp add: strip_def rstrip_def isspace_def ascii_def)
  have out: "rstrip (join_nl (tl ?between)) = ascii ''notes.txt''"
    by (simp add: rstrip_def isspace_def ascii_def)
  from tmux_exec_returns_lines_between_sentinels
         [OF live found before shape pre s mid t post between, of "ascii ''ls''"]
  show ?thesis
    using echo out by simp
qed


text \<open>
  C4 as stated fails for a pane in which the start sentinel shows again after the end
  sentinel: the loop over the lines does not stop at the end sentinel, it collects again
  from the second start sentinel on. Between the two sentinel lines stands the echoed
  command and the line \<open>a\<close>; the call returns \<open>a\<close> and \<open>c\<close>.
\<close>

theorem tmux_exec_resumes_after_end_counterexample:
  "split_nl (captures (env_example\<lparr>captures := (\<lambda>k. pane_resumed)\<rparr>) 0) =
     [ascii ''__CMD_7___START'', ascii ''$ ls'', ascii ''a'', ascii ''__CMD_7___END'',
      ascii ''b'', ascii ''__CMD_7___START'', ascii ''c''] \<and>
   TmuxBackend_exec_cmd (world_empty\<lparr>tmux_sessions := {ascii ''s1''}\<rparr>)
     (env_example\<lparr>captures := (\<lambda>k. pane_resumed)\<rparr>) (ascii ''s1'') (ascii ''ls'') 10 =
   result True [(''session'', JStr (ascii ''s1'')),
                (''output'', JStr (ascii ''a'' @ [nl] @ ascii ''c''))] \<and>
   ascii ''a'' @ [nl] @ ascii ''c'' \<noteq> ascii ''a''"
proof -
  let ?e = "env_example\<lparr>captures := (\<lambda>k. pane_resumed)\<rparr>"
  have m: "marker ?e = ascii ''__CMD_7__''"
    by (simp add: marker_def env_example_def dec.simps ascii_def)
  have lines: "split_nl (captures ?e 0) =
     [ascii ''__CMD_7___START'', ascii ''$ ls'', ascii ''a'', ascii ''__CMD_7___END'',
      ascii ''b'', ascii ''__CMD_7___START'', ascii ''c'']"
    by (simp add: pane_resumed_def split_nl_def ascii_def nl_def)
  have hit: "str_in (END (marker ?e)) (captures ?e 0)"
    unfolding m by (simp add: pane_resumed_def END_def ascii_def nl_def)
  have polled: "poll_pane (captures ?e) (marker ?e) (ascii ''ls'') 0 (nat (10 * 10)) =
      Some (extract_output (marker ?e) (ascii ''ls'') (captures ?e (0 + 0)))"
    by (rule poll_pane_found) (use hit in simp_all)
  have collected: "collect (marker ?e) False (split_nl (captures ?e 0)) =
      [ascii ''$ ls'', ascii ''a'', ascii ''c'']"
    unfolding lines m by (simp add: START_def END_def ascii_def)
  have echo: "str_in (strip (ascii ''ls'')) (ascii ''$ ls'')"
    by (simp add: strip_def rstrip_def isspace_def ascii_def)
  have joined: "rstrip (join_nl [ascii ''a'', ascii ''c'']) = ascii ''a'' @ [nl] @ ascii ''c''"
    by (simp add: rstrip_def isspace_def ascii_def nl_def)
  have extracted: "extract_output (marker ?e) (ascii ''ls'') (captures ?e 0) =
      ascii ''a'' @ [nl] @ ascii ''c''"
    unfolding extract_output_def collected using echo joined by simp
  have res: "TmuxBackend_exec_cmd (world_empty\<lparr>tmux_sessions := {ascii ''s1''}\<rparr>) ?e
       (ascii ''s1'') (ascii ''ls'') 10 =
     result True [(''session'', JStr (ascii ''s1'')),
                  (''output'', JStr (ascii ''a'' @ [nl] @ ascii ''c''))]"
    using polled extracted by (simp add: TmuxBackend_exec_cmd_def)
  have ne: "ascii ''a'' @ [nl] @ ascii ''c'' \<noteq> ascii ''a''"
    by (simp add: ascii_def)
  show ?thesis
    using lines res ne by (intro conjI)
qed
section \<open>Closing sessions\<close>

text \<open>
  C9. On the multiplexer backend, closing a name always deletes its Session Record: after
  \<open>close(name)\<close>, whatever it reports, loading the record of that name yields nothing; in
  particular this holds when no live session of that name exists and the call reports a
  failure.
\<close>

theorem tmux_close_always_deletes_record:
  "load_session_info (snd (TmuxBackend_close w e nm)) nm = None \<and>
   (nm \<notin> tmux_sessions w \<longrightarrow>
      field (fst (TmuxBackend_close w e nm)) ''success'' = Some (JBool False))"
  by (simp add: TmuxBackend_close_def Let_def load_session_info_def remove_session_info_def
      field_def result_def delete_conv)

theorem tmux_close_always_deletes_record_witness:
  "load_session_info world_no_log (ascii ''s1'') = Some info_example \<and>
   ascii ''s1'' \<notin> tmux_sessions world_no_log \<and>
   load_session_info (snd (TmuxBackend_close world_no_log env_example (ascii ''s1'')))
     (ascii ''s1'') = None \<and>
   field (fst (TmuxBackend_close world_no_log env_example (ascii ''s1''))) ''success'' =
     Some (JBool False)"
  using tmux_close_always_deletes_record [of world_no_log env_example "ascii ''s1''"]
  by (simp add: world_no_log_def world_empty_def load_session_info_def)


lemma env_example_facts:
  "get_backend env_example = TmuxBackend"
  "\<not> is_windows env_example"
  "fifo_write env_example = None"
  "\<not> mkfifo_fails env_example"
  "oneshot_run env_example = Inr (ascii ''hi'' @ [nl], [])"
  "config_lookup env_example = Inl KeyError"
  "strip (kill_stderr env_example) = ascii ''no such session''"
  by (simp_all add: env_example_def get_backend_def strip_def rstrip_def isspace_def ascii_def)

lemma env_pipe_facts:
  "get_backend env_pipe = SubprocessBackend"
  "\<not> is_windows env_pipe"
  "fifo_write env_pipe = None"
  "\<not> mkfifo_fails env_pipe"
  "oneshot_run env_pipe = Inr (ascii ''hi'' @ [nl], [])"
  "log_obs env_pipe = (\<lambda>k. [])"
  by (simp_all add: env_pipe_def env_example_def get_backend_def)

lemma env_windows_facts:
  "get_backend env_windows = SubprocessBackend"
  "is_windows env_windows"
  "oneshot_run env_windows = Inr (ascii ''hi'' @ [nl], [])"
  by (simp_all add: env_windows_def env_example_def get_backend_def)

lemma world_empty_facts:
  "load_session_info world_empty nm = None"
  "nm \<notin> tmux_sessions world_empty"
  "nm \<notin> fifos world_empty"
  "records world_empty = []"
  by (simp_all add: world_empty_def load_session_info_def)

lemma world_no_log_facts:
  "load_session_info world_no_log (ascii ''s1'') = Some info_example"
  "logs world_no_log (ascii ''s1'') = None"
  "ascii ''s1'' \<notin> fifos world_no_log"
  "ascii ''s1'' \<notin> tmux_sessions world_no_log"
  "info_pid info_example \<notin> procs world_no_log"
  "0 < info_pid info_example"
  by (simp_all add: world_no_log_def world_empty_def load_session_info_def info_example_def)

lemma world_stale_facts:
  "load_session_info world_stale (ascii ''s1'') = Some info_example"
  "logs world_stale (ascii ''s1'') = Some (ascii ''old'' @ [nl])"
  "ascii ''s1'' \<in> fifos world_stale"
  "info_pid info_example \<notin> procs world_stale"
  "0 < info_pid info_example"
  "distinct (map fst (records world_stale))"
  "ascii ''s1'' \<notin> readers world_stale"
  by (simp_all add: world_stale_def world_empty_def load_session_info_def info_example_def)

lemma world_live_facts:
  "load_session_info world_live (ascii ''s1'') = Some info_example"
  "logs world_live (ascii ''s1'') = Some (ascii ''old'' @ [nl])"
  "ascii ''s1'' \<in> fifos world_live"
  "info_pid info_example \<in> procs world_live"
  "ascii ''s1'' \<in> readers world_live"
  by (simp_all add: world_live_def world_stale_def world_empty_def load_session_info_def
      info_example_def)


section \<open>Creating a session on the pipe/daemon backend\<close>

lemma load_after_remove: "load_session_info (remove_session_info w nm) nm = None"
  by (simp add: load_session_info_def remove_session_info_def delete_conv')

lemma load_after_save:
  "load_session_info (save_session_info w e nm p sh) nm =
     Some \<lparr>info_name = nm, info_pid = p, info_shell = sh, info_created_at = now_ms e\<rparr>"
  by (simp add: load_session_info_def save_session_info_def update_conv')

lemma create_live:
  "load_session_info w nm = Some i \<Longrightarrow> info_pid i \<in> procs w \<Longrightarrow>
   SubprocessBackend_create w e nm sh =
     (Inr (result False [(''error'', JMsg (SessionExistsPid nm (info_pid i)))]), w)"
  by (simp add: SubprocessBackend_create_def)

lemma create_fresh:
  "load_session_info w nm = None \<Longrightarrow>
   SubprocessBackend_create w e nm sh =
     (let w1 = w\<lparr>logs := (logs w)(nm \<mapsto> [])\<rparr> in
      if is_windows e
      then (Inr (result True [(''session'', JStr nm), (''message'', JMsg (CreatedStandalone nm)),
                              (''backend'', JStr (ascii ''subprocess-windows''))]),
            save_session_info w1 e nm 0 (or_default sh (ascii ''cmd.exe'')))
      else let w2 = w1\<lparr>fifos := fifos w1 - {nm}, readers := readers w1 - {nm}\<rparr> in
        if mkfifo_fails e then (Inl OSError, w2)
        else let w3 = w2\<lparr>fifos := insert nm (fifos w2),
                           readers := insert nm (readers w2),
                           procs := insert (spawned_pid e) (procs w2),
                           pidfiles := (if daemon_wrote_pid e
                                        then (pidfiles w2)(nm \<mapsto> spawned_pid e)
                                        else pidfiles w2)\<rparr>;
                 daemon_pid = (case pidfiles w3 nm of Some p \<Rightarrow> p | None \<Rightarrow> spawned_pid e)
             in (Inr (result True [(''session'', JStr nm),
                                   (''message'', JMsg (CreatedPid nm daemon_pid)),
                                   (''backend'', JStr (ascii ''subprocess-fifo''))]),
                 save_session_info w3 e nm daemon_pid (or_default sh (ascii ''/bin/bash''))))"
  by (simp add: SubprocessBackend_create_def Let_def)

lemma create_stale:
  "load_session_info w nm = Some i \<Longrightarrow> info_pid i \<notin> procs w \<Longrightarrow>
   SubprocessBackend_create w e nm sh = SubprocessBackend_create (remove_session_info w nm) e nm sh"
  by (simp add: SubprocessBackend_create_def Let_def load_after_remove)

lemma create_fresh_not_refused:
  "load_session_info w nm = None \<Longrightarrow>
   fst (SubprocessBackend_create w e nm sh) \<noteq> Inr (result False kw)"
  by (simp add: create_fresh Let_def result_def)

lemma create_fresh_record:
  "load_session_info w nm = None \<Longrightarrow> is_windows e \<or> \<not> mkfifo_fails e \<Longrightarrow>
   \<exists>r i. fst (SubprocessBackend_create w e nm sh) = Inr r \<and>
         field r ''success'' = Some (JBool True) \<and>
         load_session_info (snd (SubprocessBackend_create w e nm sh)) nm = Some i \<and>
         info_name i = nm"
  by (auto simp: create_fresh Let_def result_def field_def load_after_save)

lemma records_save:
  "records (save_session_info w e nm p sh) =
     AList.update nm \<lparr>info_name = nm, info_pid = p, info_shell = sh, info_created_at = now_ms e\<rparr>
       (records w)"
  by (simp add: save_session_info_def)

lemma create_fresh_distinct:
  "load_session_info w nm = None \<Longrightarrow> distinct (map fst (records w)) \<Longrightarrow>
   distinct (map fst (records (snd (SubprocessBackend_create w e nm sh))))"
  by (simp add: create_fresh Let_def records_save distinct_update)

text \<open>
  C5. On the pipe/daemon backend \<open>create(name, shell)\<close> is refused with the
  already-exists error exactly when a Session Record of that name exists whose recorded
  process id answers the liveness probe, and then nothing changes. A record whose probe
  fails is deleted and creation goes on as if there had been none: unless the named pipe
  cannot be made, it succeeds and leaves the new record under that name. The store keeps
  at most one record per name.
\<close>

theorem create_refused_iff_live_record:
  "((\<exists>p. fst (SubprocessBackend_create w e nm sh) =
           Inr (result False [(''error'', JMsg (SessionExistsPid nm p))])) \<longleftrightarrow>
      (\<exists>i. load_session_info w nm = Some i \<and> info_pid i \<in> procs w)) \<and>
   (\<forall>i. load_session_info w nm = Some i \<and> info_pid i \<in> procs w \<longrightarrow>
      snd (SubprocessBackend_create w e nm sh) = w) \<and>
   (\<forall>i. load_session_info w nm = Some i \<and> info_pid i \<notin> procs w \<longrightarrow>
      load_session_info (remove_session_info w nm) nm = None \<and>
      SubprocessBackend_create w e nm sh =
        SubprocessBackend_create (remove_session_info w nm) e nm sh) \<and>
   (\<not> (\<exists>i. load_session_info w nm = Some i \<and> info_pid i \<in> procs w) \<and>
    (is_windows e \<or> \<not> mkfifo_fails e) \<longrightarrow>
      (\<exists>r i. fst (SubprocessBackend_create w e nm sh) = Inr r \<and>
             field r ''success'' = Some (JBool True) \<and>
             load_session_info (snd (SubprocessBackend_create w e nm sh)) nm = Some i \<and>
             info_name i = nm)) \<and>
   (distinct (map fst (records w)) \<longrightarrow>
      distinct (map fst (records (snd (SubprocessBackend_create w e nm sh)))))"
proof (cases "load_session_info w nm")
  case None
  then show ?thesis
    using create_fresh_not_refused [OF None] create_fresh_record [OF None]
      create_fresh_distinct [OF None]
    by simp
next
  case (Some i)
  show ?thesis
  proof (cases "info_pid i \<in> procs w")
    case True
    then show ?thesis
      using Some by (auto simp: create_live)
  next
    case False
    have gone: "load_session_info (remove_session_info w nm) nm = None"
      by (rule load_after_remove)
    have same: "SubprocessBackend_create w e nm sh =
        SubprocessBackend_create (remove_session_info w nm) e nm sh"
      using Some False by (rule create_stale)
    have d: "distinct (map fst (records w)) \<Longrightarrow>
        distinct (map fst (records (remove_session_info w nm)))"
      by (simp add: remove_session_info_def distinct_delete)
    show ?thesis
      using Some False gone create_fresh_not_refused [OF gone] create_fresh_record [OF gone]
        create_fresh_distinct [OF gone] d
      unfolding same by simp
  qed
qed

theorem create_refused_iff_live_record_witness:
  "load_session_info world_live (ascii ''s1'') = Some info_example \<and>
   info_pid info_example \<in> procs world_live \<and>
   (\<exists>p. fst (SubprocessBackend_create world_live env_example (ascii ''s1'') None) =
         Inr (result False [(''error'', JMsg (SessionExistsPid (ascii ''s1'') p))])) \<and>
   snd (SubprocessBackend_create world_live env_example (ascii ''s1'') None) = world_live \<and>
   load_session_info world_stale (ascii ''s1'') = Some info_example \<and>
   info_pid info_example \<notin> procs world_stale \<and>
   \<not> mkfifo_fails env_example \<and>
   distinct (map fst (records world_stale)) \<and>
   (\<exists>r i. fst (SubprocessBackend_create world_stale env_example (ascii ''s1'') None) = Inr r \<and>
          field r ''success'' = Some (JBool True) \<and>
          load_session_info
            (snd (SubprocessBackend_create world_stale env_example (ascii ''s1'') None))
            (ascii ''s1'') = Some i \<and>
          info_name i = ascii ''s1'') \<and>
   distinct (map fst (records
     (snd (SubprocessBackend_create world_stale env_example (ascii ''s1'') None))))"
proof -
  note live = create_refused_iff_live_record [of world_live env_example "ascii ''s1''" None]
  note stale = create_refused_iff_live_record [of world_stale env_example "ascii ''s1''" None]
  have m: "\<not> mkfifo_fails env_example" by (simp add: env_example_def)
  have c1: "\<exists>p. fst (SubprocessBackend_create world_live env_example (ascii ''s1'') None) =
         Inr (result False [(''error'', JMsg (SessionExistsPid (ascii ''s1'') p))])"
    using live world_live_facts(1,4) by blast
  have c2: "snd (SubprocessBackend_create world_live env_example (ascii ''s1'') None) = world_live"
    using live world_live_facts(1,4) by blast
  have dead: "\<not> (\<exists>i. load_session_info world_stale (ascii ''s1'') = Some i \<and>
                     info_pid i \<in> procs world_stale)"
    using world_stale_facts(1,4) by simp
  have c3: "\<exists>r i. fst (SubprocessBackend_create world_stale env_example (ascii ''s1'') None) = Inr r \<and>
          field r ''success'' = Some (JBool True) \<and>
          load_session_info
            (snd (SubprocessBackend_create world_stale env_example (ascii ''s1'') None))
            (ascii ''s1'') = Some i \<and>
          info_name i = ascii ''s1''"
    using stale dead m by blast
  have c4: "distinct (map fst (records
     (snd (SubprocessBackend_create world_stale env_example (ascii ''s1'') None))))"
    using stale world_stale_facts(6) by blast
  show ?thesis
    using c1 c2 c3 c4 m world_live_facts(1,4) world_stale_facts(1,4,6) by (intro conjI)
qed

section \<open>Command execution on the pipe/daemon backend\<close>

lemma exec_no_record:
  "load_session_info w nm = None \<Longrightarrow>
   SubprocessBackend_exec_cmd w e nm cmd timeout =
     Some (Inr (result False [(''error'', JMsg (SessionNotFound nm))]), w)"
  by (simp add: SubprocessBackend_exec_cmd_def)

lemma exec_no_log:
  "load_session_info w nm = Some i \<Longrightarrow> logs w nm = None \<Longrightarrow>
   SubprocessBackend_exec_cmd w e nm cmd timeout =
     Some (Inr (result False [(''error'', JMsg (LogMissing nm))]), w)"
  by (simp add: SubprocessBackend_exec_cmd_def)

lemma exec_dead:
  "load_session_info w nm = Some i \<Longrightarrow> logs w nm = Some log \<Longrightarrow>
   0 < info_pid i \<Longrightarrow> info_pid i \<notin> procs w \<Longrightarrow>
   SubprocessBackend_exec_cmd w e nm cmd timeout =
     Some (map_prod Inr id (exec_via_new_process w e nm cmd timeout (st_size log)))"
  by (simp add: SubprocessBackend_exec_cmd_def)

lemma exec_oneshot_taken:
  assumes "load_session_info w nm = Some i" and "logs w nm = Some log"
    and "is_windows e \<or> nm \<notin> fifos w \<or> (0 < info_pid i \<and> info_pid i \<notin> procs w)"
  shows "SubprocessBackend_exec_cmd w e nm cmd timeout =
     Some (map_prod Inr id (exec_via_new_process w e nm cmd timeout (st_size log)))"
  using assms
  by (auto simp: SubprocessBackend_exec_cmd_def Let_def)

lemma exec_piped:
  assumes "load_session_info w nm = Some i" and "logs w nm = Some log"
    and "info_pid i \<le> 0 \<or> info_pid i \<in> procs w" and "\<not> is_windows e" and "nm \<in> fifos w"
    and "nm \<in> readers w" and "fifo_write e = None"
    and "k = wait_output (log_obs e) (st_size log) 0 (nat (timeout * 10))"
  shows "SubprocessBackend_exec_cmd w e nm cmd timeout =
     (case read_text (log_obs e k) of
        Inl x \<Rightarrow> Some (Inl x, w\<lparr>logs := (logs w)(nm \<mapsto> log_obs e k)\<rparr>)
      | Inr content \<Rightarrow>
          Some (Inr (result True [(''session'', JStr nm),
                  (''output'', JStr (rstrip (drop (st_size log) content)))]),
                w\<lparr>logs := (logs w)(nm \<mapsto> log_obs e k)\<rparr>))"
  using assms
  by (auto simp: SubprocessBackend_exec_cmd_def Let_def split: sum.splits)

lemma exec_blocked:
  assumes "load_session_info w nm = Some i" and "logs w nm = Some log"
    and "info_pid i \<le> 0 \<or> info_pid i \<in> procs w" and "\<not> is_windows e" and "nm \<in> fifos w"
    and "nm \<notin> readers w"
  shows "SubprocessBackend_exec_cmd w e nm cmd timeout = None"
  using assms
  by (auto simp: SubprocessBackend_exec_cmd_def Let_def)

lemma oneshot_completed:
  "oneshot_run e = Inr (out, err) \<Longrightarrow> logs w nm = Some log \<Longrightarrow>
   exec_via_new_process w e nm cmd timeout b =
     (result True [(''session'', JStr nm), (''output'', JStr (rstrip (out @ err))),
                   (''note'', JMsg ViaNewProcess)],
      w\<lparr>logs := (logs w)(nm \<mapsto>
           log @ encode_text (is_windows e) (ascii ''$ '' @ cmd @ [nl] @ out @ err @ [nl]))\<rparr>)"
  by (simp add: exec_via_new_process_def Let_def)

lemma oneshot_timeout:
  "oneshot_run e = Inl TimeoutExpired \<Longrightarrow>
   exec_via_new_process w e nm cmd timeout b =
     (result True [(''session'', JStr nm), (''output'', JStr []),
                   (''warning'', JMsg TimeoutOneShot)], w)"
  by (simp add: exec_via_new_process_def)

text \<open>
  C6, as amended. On the pipe/daemon backend \<open>execCommand\<close> fails with the not-found error
  when there is no Session Record, and with an error of its own when there is a record but
  the session's log file is missing. With a record, the log file present, and a recorded
  process id that is positive and fails the liveness probe, it falls back to one-shot
  execution: when the fresh shell completes, its combined stdout and stderr are appended to
  the log after a line holding the command text, the result carries that output
  right-stripped, and the session record is left in place.
\<close>

theorem exec_cases_on_pipe_backend:
  "(load_session_info w nm = None \<longrightarrow>
      SubprocessBackend_exec_cmd w e nm cmd timeout =
        Some (Inr (result False [(''error'', JMsg (SessionNotFound nm))]), w)) \<and>
   (\<forall>i. load_session_info w nm = Some i \<and> logs w nm = None \<longrightarrow>
      SubprocessBackend_exec_cmd w e nm cmd timeout =
        Some (Inr (result False [(''error'', JMsg (LogMissing nm))]), w)) \<and>
   (\<forall>i log out err.
      load_session_info w nm = Some i \<and> logs w nm = Some log \<and>
      0 < info_pid i \<and> info_pid i \<notin> procs w \<and> oneshot_run e = Inr (out, err) \<longrightarrow>
      SubprocessBackend_exec_cmd w e nm cmd timeout =
        Some (Inr (result True [(''session'', JStr nm), (''output'', JStr (rstrip (out @ err))),
                                (''note'', JMsg ViaNewProcess)]),
              w\<lparr>logs := (logs w)(nm \<mapsto>
                   log @ encode_text (is_windows e)
                           (ascii ''$ '' @ cmd @ [nl] @ out @ err @ [nl]))\<rparr>) \<and>
      load_session_info (snd (the (SubprocessBackend_exec_cmd w e nm cmd timeout))) nm = Some i)"
  by (auto simp: exec_no_record exec_no_log exec_dead oneshot_completed load_session_info_def)

theorem exec_cases_on_pipe_backend_witness:
  "load_session_info world_empty (ascii ''s1'') = None \<and>
   SubprocessBackend_exec_cmd world_empty env_example (ascii ''s1'') (ascii ''echo hi'') 10 =
     Some (Inr (result False [(''error'', JMsg (SessionNotFound (ascii ''s1'')))]), world_empty) \<and>
   load_session_info world_stale (ascii ''s1'') = Some info_example \<and>
   logs world_stale (ascii ''s1'') = Some (ascii ''old'' @ [nl]) \<and>
   0 < info_pid info_example \<and> info_pid info_example \<notin> procs world_stale \<and>
   oneshot_run env_example = Inr (ascii ''hi'' @ [nl], []) \<and>
   SubprocessBackend_exec_cmd world_stale env_example (ascii ''s1'') (ascii ''echo hi'') 10 =
     Some (Inr (result True [(''session'', JStr (ascii ''s1'')), (''output'', JStr (ascii ''hi'')),
                             (''note'', JMsg ViaNewProcess)]),
           world_stale\<lparr>logs := (logs world_stale)(ascii ''s1'' \<mapsto>
              ascii ''old'' @ [nl] @ ascii ''$ echo hi'' @ [nl] @ ascii ''hi'' @ [nl, nl])\<rparr>) \<and>
   load_session_info
     (snd (the (SubprocessBackend_exec_cmd world_stale env_example (ascii ''s1'')
                  (ascii ''echo hi'') 10)))
     (ascii ''s1'') = Some info_example \<and>
   load_session_info world_no_log (ascii ''s1'') = Some info_example \<and>
   logs world_no_log (ascii ''s1'') = None \<and>
   SubprocessBackend_exec_cmd world_no_log env_example (ascii ''s1'') (ascii ''echo hi'') 10 =
     Some (Inr (result False [(''error'', JMsg (LogMissing (ascii ''s1'')))]), world_no_log)"
proof -
  note T0 = exec_cases_on_pipe_backend [of world_empty "ascii ''s1''" env_example "ascii ''echo hi''" 10]
  note T1 = exec_cases_on_pipe_backend [of world_stale "ascii ''s1''" env_example "ascii ''echo hi''" 10]
  note T2 = exec_cases_on_pipe_backend [of world_no_log "ascii ''s1''" env_example "ascii ''echo hi''" 10]
  have strip_hi: "rstrip ((ascii ''hi'' @ [nl]) @ []) = ascii ''hi''"
    by (simp add: rstrip_def isspace_def ascii_def nl_def)
  have text_eq: "(ascii ''old'' @ [nl]) @ encode_text (is_windows env_example)
        (ascii ''$ '' @ ascii ''echo hi'' @ [nl] @ (ascii ''hi'' @ [nl]) @ [] @ [nl])
      = ascii ''old'' @ [nl] @ ascii ''$ echo hi'' @ [nl] @ ascii ''hi'' @ [nl, nl]"
    using env_example_facts(2)
    by (simp add: encode_text_def write_newlines_def utf8_encode_cp_def ascii_def nl_def)
  have c0: "SubprocessBackend_exec_cmd world_empty env_example (ascii ''s1'') (ascii ''echo hi'') 10 =
     Some (Inr (result False [(''error'', JMsg (SessionNotFound (ascii ''s1'')))]), world_empty)"
    using T0 world_empty_facts(1) [of "ascii ''s1''"] by blast
  have c1: "SubprocessBackend_exec_cmd world_stale env_example (ascii ''s1'') (ascii ''echo hi'') 10 =
        Some (Inr (result True [(''session'', JStr (ascii ''s1'')),
                (''output'', JStr (rstrip ((ascii ''hi'' @ [nl]) @ []))),
                (''note'', JMsg ViaNewProcess)]),
              world_stale\<lparr>logs := (logs world_stale)(ascii ''s1'' \<mapsto>
                (ascii ''old'' @ [nl]) @ encode_text (is_windows env_example)
                  (ascii ''$ '' @ ascii ''echo hi'' @ [nl] @ (ascii ''hi'' @ [nl]) @ [] @ [nl]))\<rparr>) \<and>
      load_session_info
        (snd (the (SubprocessBackend_exec_cmd world_stale env_example (ascii ''s1'')
                     (ascii ''echo hi'') 10)))
        (ascii ''s1'') = Some info_example"
    using T1 world_stale_facts(1,2,4,5) env_example_facts(5) by blast
  have c1a: "SubprocessBackend_exec_cmd world_stale env_example (ascii ''s1'') (ascii ''echo hi'') 10 =
     Some (Inr (result True [(''session'', JStr (ascii ''s1'')), (''output'', JStr (ascii ''hi'')),
                             (''note'', JMsg ViaNewProcess)]),
           world_stale\<lparr>logs := (logs world_stale)(ascii ''s1'' \<mapsto>
              ascii ''old'' @ [nl] @ ascii ''$ echo hi'' @ [nl] @ ascii ''hi'' @ [nl, nl])\<rparr>)"
    using c1 unfolding strip_hi text_eq by blast
  have c1b: "load_session_info
     (snd (the (SubprocessBackend_exec_cmd world_stale env_example (ascii ''s1'')
                  (ascii ''echo hi'') 10)))
     (ascii ''s1'') = Some info_example"
    using c1 by blast
  have c2: "SubprocessBackend_exec_cmd world_no_log env_example (ascii ''s1'') (ascii ''echo hi'') 10 =
     Some (Inr (result False [(''error'', JMsg (LogMissing (ascii ''s1'')))]), world_no_log)"
    using T2 world_no_log_facts(1,2) by blast
  show ?thesis
    using world_empty_facts(1) [of "ascii ''s1''"] c0 world_stale_facts(1,2,5,4) env_example_facts(5) c1a c1b
      world_no_log_facts(1,2) c2
    by (intro conjI)
qed

text \<open>C6 as stated fails where a record exists and its process is gone but the session has
  no log file: there is no one-shot execution, the call fails.\<close>

theorem exec_stale_record_without_log_counterexample:
  "load_session_info world_no_log (ascii ''s1'') = Some info_example \<and>
   0 < info_pid info_example \<and> info_pid info_example \<notin> procs world_no_log \<and>
   oneshot_run env_example = Inr (ascii ''hi'' @ [nl], []) \<and>
   SubprocessBackend_exec_cmd world_no_log env_example (ascii ''s1'') (ascii ''echo hi'') 10 =
     Some (Inr (result False [(''error'', JMsg (LogMissing (ascii ''s1'')))]), world_no_log)"
  using world_no_log_facts env_example_facts(5)
  by (simp add: exec_no_log)

text \<open>The wait loop under a log that never grows: one look per iteration, and every
  iteration is used.\<close>

lemma wait_output_silent:
  "\<forall>j. st_size (obs j) \<le> b \<Longrightarrow> wait_output obs b k n = k + n"
  by (induction n arbitrary: k) (simp_all add: Let_def not_less [symmetric])

text \<open>The wait loop under a log that is longer at every look: no iteration ends the loop,
  each takes two looks.\<close>

lemma wait_output_growing:
  "\<forall>j. b < st_size (obs j) \<and> st_size (obs (Suc j)) \<noteq> st_size (obs j) \<Longrightarrow>
   wait_output obs b k n = k + 2 * n"
  by (induction n arbitrary: k) (simp_all add: Let_def)

text \<open>
  C2. The claim: when the wait exceeds the timeout, \<open>execCommand\<close> returns a success with
  empty output and a warning, on both backends. The multiplexer backend does (no capture
  within the \<open>timeout * 10\<close> polls shows the end sentinel), and so does the one-shot path of
  the pipe/daemon backend (the fresh shell runs out of time). The pipe path of the
  pipe/daemon backend does not: when the log has not grown by the end of the wait, every
  iteration of the wait loop has been used, and the result is a success with empty output
  that carries no warning.
\<close>

theorem exec_timeout_warning_missing_on_pipe_path:
  "(nm \<in> tmux_sessions w \<and>
    (\<forall>j. j < nat (timeout * 10) \<longrightarrow> \<not> str_in (END (marker e)) (captures e j)) \<longrightarrow>
      TmuxBackend_exec_cmd w e nm cmd timeout =
        result True [(''session'', JStr nm), (''output'', JStr []),
                     (''warning'', JMsg TimeoutTmux)]) \<and>
   (oneshot_run e = Inl TimeoutExpired \<longrightarrow>
      exec_via_new_process w e nm cmd timeout b =
        (result True [(''session'', JStr nm), (''output'', JStr []),
                      (''warning'', JMsg TimeoutOneShot)], w)) \<and>
   (\<forall>i log content.
      load_session_info w nm = Some i \<and> logs w nm = Some log \<and>
      (info_pid i \<le> 0 \<or> info_pid i \<in> procs w) \<and> \<not> is_windows e \<and> nm \<in> fifos w \<and>
      nm \<in> readers w \<and> fifo_write e = None \<and>
      (\<forall>j. st_size (log_obs e j) \<le> st_size log) \<and>
      read_text (log_obs e (nat (timeout * 10))) = Inr content \<longrightarrow>
      wait_output (log_obs e) (st_size log) 0 (nat (timeout * 10)) = nat (timeout * 10) \<and>
      map_option fst (SubprocessBackend_exec_cmd w e nm cmd timeout) =
        Some (Inr (result True [(''session'', JStr nm), (''output'', JStr [])])) \<and>
      field (result True [(''session'', JStr nm), (''output'', JStr [])]) ''warning'' = None)"
proof (intro conjI impI allI)
  assume a: "nm \<in> tmux_sessions w \<and>
    (\<forall>j. j < nat (timeout * 10) \<longrightarrow> \<not> str_in (END (marker e)) (captures e j))"
  then have "poll_pane (captures e) (marker e) cmd 0 (nat (timeout * 10)) = None"
    by (intro poll_pane_timeout) simp
  with a show "TmuxBackend_exec_cmd w e nm cmd timeout =
        result True [(''session'', JStr nm), (''output'', JStr []),
                     (''warning'', JMsg TimeoutTmux)]"
    by (simp add: TmuxBackend_exec_cmd_def)
next
  assume "oneshot_run e = Inl TimeoutExpired"
  then show "exec_via_new_process w e nm cmd timeout b =
        (result True [(''session'', JStr nm), (''output'', JStr []),
                      (''warning'', JMsg TimeoutOneShot)], w)"
    by (rule oneshot_timeout)
next
  fix i log content
  assume a: "load_session_info w nm = Some i \<and> logs w nm = Some log \<and>
      (info_pid i \<le> 0 \<or> info_pid i \<in> procs w) \<and> \<not> is_windows e \<and> nm \<in> fifos w \<and>
      nm \<in> readers w \<and> fifo_write e = None \<and>
      (\<forall>j. st_size (log_obs e j) \<le> st_size log) \<and>
      read_text (log_obs e (nat (timeout * 10))) = Inr content"
  then have k: "wait_output (log_obs e) (st_size log) 0 (nat (timeout * 10)) = nat (timeout * 10)"
    using wait_output_silent [of "log_obs e" "st_size log" 0 "nat (timeout * 10)"] by simp
  from a have "length content \<le> st_size (log_obs e (nat (timeout * 10)))"
    using read_text_length by blast
  with a have short: "drop (st_size log) content = []"
    by (meson drop_all order_trans)
  have "SubprocessBackend_exec_cmd w e nm cmd timeout =
     (case read_text (log_obs e (nat (timeout * 10))) of
        Inl x \<Rightarrow> Some (Inl x, w\<lparr>logs := (logs w)(nm \<mapsto> log_obs e (nat (timeout * 10)))\<rparr>)
      | Inr content \<Rightarrow>
          Some (Inr (result True [(''session'', JStr nm),
                  (''output'', JStr (rstrip (drop (st_size log) content)))]),
                w\<lparr>logs := (logs w)(nm \<mapsto> log_obs e (nat (timeout * 10)))\<rparr>))"
    by (rule exec_piped) (use a k in auto)
  with a short have r: "map_option fst (SubprocessBackend_exec_cmd w e nm cmd timeout) =
        Some (Inr (result True [(''session'', JStr nm), (''output'', JStr [])]))"
    by (simp add: rstrip_Nil)
  have f: "field (result True [(''session'', JStr nm), (''output'', JStr [])]) ''warning'' = None"
    by (simp add: field_def result_def)
  show "wait_output (log_obs e) (st_size log) 0 (nat (timeout * 10)) = nat (timeout * 10)"
    by (rule k)
  show "map_option fst (SubprocessBackend_exec_cmd w e nm cmd timeout) =
        Some (Inr (result True [(''session'', JStr nm), (''output'', JStr [])]))"
    by (rule r)
  show "field (result True [(''session'', JStr nm), (''output'', JStr [])]) ''warning'' = None"
    by (rule f)
qed

lemma env_silent_facts:
  "get_backend env_silent = SubprocessBackend"
  "\<not> is_windows env_silent"
  "fifo_write env_silent = None"
  "log_obs env_silent = (\<lambda>k. ascii ''old'' @ [nl])"
  by (simp_all add: env_silent_def env_pipe_def env_example_def get_backend_def)

theorem exec_timeout_warning_missing_on_pipe_path_witness:
  "ascii ''s1'' \<in> tmux_sessions (world_empty\<lparr>tmux_sessions := {ascii ''s1''}\<rparr>) \<and>
   TmuxBackend_exec_cmd (world_empty\<lparr>tmux_sessions := {ascii ''s1''}\<rparr>)
     (env_example\<lparr>captures := (\<lambda>k. ascii ''$ sleep 60'')\<rparr>) (ascii ''s1'') (ascii ''sleep 60'') 1 =
     result True [(''session'', JStr (ascii ''s1'')), (''output'', JStr []),
                  (''warning'', JMsg TimeoutTmux)] \<and>
   exec_via_new_process world_stale (env_example\<lparr>oneshot_run := Inl TimeoutExpired\<rparr>)
     (ascii ''s1'') (ascii ''sleep 60'') 1 4 =
     (result True [(''session'', JStr (ascii ''s1'')), (''output'', JStr []),
                   (''warning'', JMsg TimeoutOneShot)], world_stale) \<and>
   load_session_info world_live (ascii ''s1'') = Some info_example \<and>
   logs world_live (ascii ''s1'') = Some (ascii ''old'' @ [nl]) \<and>
   info_pid info_example \<in> procs world_live \<and>
   ascii ''s1'' \<in> fifos world_live \<and> ascii ''s1'' \<in> readers world_live \<and>
   read_text (log_obs env_silent (nat (1 * 10))) = Inr (ascii ''old'' @ [nl]) \<and>
   wait_output (log_obs env_silent) (st_size (ascii ''old'' @ [nl])) 0 (nat (1 * 10)) =
     nat (1 * 10) \<and>
   map_option fst
     (SubprocessBackend_exec_cmd world_live env_silent (ascii ''s1'') (ascii ''sleep 60'') 1) =
     Some (Inr (result True [(''session'', JStr (ascii ''s1'')), (''output'', JStr [])])) \<and>
   field (result True [(''session'', JStr (ascii ''s1'')), (''output'', JStr [])]) ''warning'' =
     None"
proof -
  let ?e1 = "env_example\<lparr>captures := (\<lambda>k. ascii ''$ sleep 60'')\<rparr>"
  let ?w1 = "world_empty\<lparr>tmux_sessions := {ascii ''s1''}\<rparr>"
  let ?e2 = "env_example\<lparr>oneshot_run := Inl TimeoutExpired\<rparr>"
  let ?log = "ascii ''old'' @ [nl]"
  have live: "ascii ''s1'' \<in> tmux_sessions ?w1" by simp
  have m: "marker ?e1 = ascii ''__CMD_7__''"
    by (simp add: marker_def env_example_def dec.simps ascii_def)
  have never: "\<forall>j. j < nat (1 * 10) \<longrightarrow> \<not> str_in (END (marker ?e1)) (captures ?e1 j)"
    unfolding m by (simp add: END_def ascii_def)
  have c1: "TmuxBackend_exec_cmd ?w1 ?e1 (ascii ''s1'') (ascii ''sleep 60'') 1 =
     result True [(''session'', JStr (ascii ''s1'')), (''output'', JStr []),
                  (''warning'', JMsg TimeoutTmux)]"
    using exec_timeout_warning_missing_on_pipe_path [of "ascii ''s1''" ?w1 1 ?e1] live never
    by blast
  have run: "oneshot_run ?e2 = Inl TimeoutExpired" by simp
  have c2: "exec_via_new_process world_stale ?e2 (ascii ''s1'') (ascii ''sleep 60'') 1 4 =
     (result True [(''session'', JStr (ascii ''s1'')), (''output'', JStr []),
                   (''warning'', JMsg TimeoutOneShot)], world_stale)"
    using exec_timeout_warning_missing_on_pipe_path [of "ascii ''s1''" world_stale 1 ?e2] run
    by blast
  have silent: "\<forall>j. st_size (log_obs env_silent j) \<le> st_size ?log"
    by (simp add: env_silent_facts(4))
  have decoded: "read_text (log_obs env_silent (nat (1 * 10))) = Inr ?log"
    by (simp add: env_silent_facts(4) read_text_def ascii_def nl_def)
  have c3: "wait_output (log_obs env_silent) (st_size ?log) 0 (nat (1 * 10)) = nat (1 * 10) \<and>
      map_option fst
        (SubprocessBackend_exec_cmd world_live env_silent (ascii ''s1'') (ascii ''sleep 60'') 1) =
        Some (Inr (result True [(''session'', JStr (ascii ''s1'')), (''output'', JStr [])])) \<and>
      field (result True [(''session'', JStr (ascii ''s1'')), (''output'', JStr [])])
        ''warning'' = None"
    using exec_timeout_warning_missing_on_pipe_path [of "ascii ''s1''" world_live 1 env_silent]
      world_live_facts env_silent_facts(2,3) silent decoded
    by blast
  show ?thesis
    using live c1 c2 world_live_facts decoded c3 by (intro conjI) blast+
qed

text \<open>The same path under a command that keeps printing: all ten iterations of a
  one-second wait pass without the log settling, and the result carries the text printed
  so far, again without a warning.\<close>

lemma exec_timeout_on_pipe_path_partial_output:
  "wait_output (log_obs env_busy) (st_size (ascii ''old'' @ [nl])) 0 (nat (1 * 10)) = 20 \<and>
   map_option fst
     (SubprocessBackend_exec_cmd world_live env_busy (ascii ''s1'') (ascii ''yes'') 1) =
     Some (Inr (result True [(''session'', JStr (ascii ''s1'')),
                             (''output'', JStr (replicate 21 121))])) \<and>
   field (result True [(''session'', JStr (ascii ''s1'')), (''output'', JStr (replicate 21 121))])
     ''warning'' = None"
proof -
  let ?obs = "\<lambda>k. ascii ''old'' @ [nl] @ replicate (Suc k) (121::nat)"
  have env: "\<not> is_windows env_busy" "fifo_write env_busy = None" "log_obs env_busy = ?obs"
    by (simp_all add: env_busy_def env_pipe_def env_example_def)
  have size0: "st_size (ascii ''old'' @ [nl]) = 4"
    by (simp add: st_size_def ascii_def)
  have size: "st_size (?obs j) = 5 + j" for j
    by (simp add: st_size_def ascii_def)
  have "\<forall>j. 4 < st_size (?obs j) \<and> st_size (?obs (Suc j)) \<noteq> st_size (?obs j)"
    unfolding size by simp
  then have "wait_output ?obs 4 0 (nat (1 * 10)) = 0 + 2 * nat (1 * 10)"
    by (rule wait_output_growing)
  then have loop: "wait_output (log_obs env_busy) (st_size (ascii ''old'' @ [nl])) 0 (nat (1 * 10)) = 20"
    unfolding env(3) size0 by simp
  have "read_text (ascii ''old'' @ [nl] @ replicate 21 121) =
      Inr (ascii ''old'' @ [nl] @ replicate 21 121)"
    by (rule read_text_ascii) (auto simp: ascii_def nl_def)
  then have decoded: "read_text (log_obs env_busy 20) = Inr (ascii ''old'' @ [nl] @ replicate 21 121)"
    unfolding env(3) by simp
  have out: "rstrip (drop (st_size (ascii ''old'' @ [nl])) (ascii ''old'' @ [nl] @ replicate 21 121)) =
      replicate 21 121"
    unfolding size0 by (simp add: ascii_def rstrip_def isspace_def)
  have "SubprocessBackend_exec_cmd world_live env_busy (ascii ''s1'') (ascii ''yes'') 1 =
     (case read_text (log_obs env_busy 20) of
        Inl x \<Rightarrow> Some (Inl x, world_live\<lparr>logs := (logs world_live)(ascii ''s1'' \<mapsto> log_obs env_busy 20)\<rparr>)
      | Inr content \<Rightarrow>
          Some (Inr (result True [(''session'', JStr (ascii ''s1'')),
                  (''output'', JStr (rstrip (drop (st_size (ascii ''old'' @ [nl])) content)))]),
                world_live\<lparr>logs := (logs world_live)(ascii ''s1'' \<mapsto> log_obs env_busy 20)\<rparr>))"
    by (rule exec_piped [OF world_live_facts(1,2)]) (use world_live_facts env(1,2) loop in simp_all)
  then have res: "map_option fst
     (SubprocessBackend_exec_cmd world_live env_busy (ascii ''s1'') (ascii ''yes'') 1) =
     Some (Inr (result True [(''session'', JStr (ascii ''s1'')),
                             (''output'', JStr (replicate 21 121))]))"
    unfolding decoded using out by simp
  have w: "field (result True [(''session'', JStr (ascii ''s1'')), (''output'', JStr (replicate 21 121))])
     ''warning'' = None"
    by (simp add: field_def result_def)
  show ?thesis
    using loop res w by (intro conjI)
qed

section \<open>Sending raw text on the pipe/daemon backend\<close>

text \<open>
  C10, as amended. On the pipe/daemon backend \<open>send(name, text)\<close> fails with the no-pipe
  error exactly when the session's named-pipe file does not exist. When the file exists,
  the call does not return for as long as no process holds the pipe open for reading; with
  a reader it succeeds exactly when writing to the pipe raises nothing, reports a
  structured failure carrying the error exactly when the write raises an \<open>OSError\<close>, and
  ends with the exception when the write raises anything else. The Session Record and the
  process table are never looked at: the outcome is the same whatever they hold.
\<close>

theorem send_looks_at_the_pipe_only:
  "(SubprocessBackend_send w e nm t = Some (Inr (result False [(''error'', JMsg (NoFifo nm))])) \<longleftrightarrow>
      nm \<notin> fifos w) \<and>
   (SubprocessBackend_send w e nm t = None \<longleftrightarrow> nm \<in> fifos w \<and> nm \<notin> readers w) \<and>
   (SubprocessBackend_send w e nm t =
      Some (Inr (result True [(''session'', JStr nm), (''message'', JMsg TextSent)])) \<longleftrightarrow>
      nm \<in> fifos w \<and> nm \<in> readers w \<and> fifo_write e = None) \<and>
   (\<forall>x. is_OSError x \<longrightarrow>
      (SubprocessBackend_send w e nm t = Some (Inr (result False [(''error'', JMsg (ExcText x))])) \<longleftrightarrow>
       nm \<in> fifos w \<and> nm \<in> readers w \<and> fifo_write e = Some x)) \<and>
   (\<forall>x. \<not> is_OSError x \<longrightarrow>
      (SubprocessBackend_send w e nm t = Some (Inl x) \<longleftrightarrow>
       nm \<in> fifos w \<and> nm \<in> readers w \<and> fifo_write e = Some x)) \<and>
   SubprocessBackend_send (w\<lparr>records := rs, procs := ps\<rparr>) e nm t =
     SubprocessBackend_send w e nm t"
  by (auto simp: SubprocessBackend_send_def result_def split: option.splits)

theorem send_looks_at_the_pipe_only_witness:
  "load_session_info (world_live\<lparr>records := []\<rparr>) (ascii ''s1'') = None \<and>
   ascii ''s1'' \<in> fifos (world_live\<lparr>records := []\<rparr>) \<and>
   ascii ''s1'' \<in> readers (world_live\<lparr>records := []\<rparr>) \<and>
   fifo_write env_pipe = None \<and>
   SubprocessBackend_send (world_live\<lparr>records := []\<rparr>) env_pipe (ascii ''s1'') (ascii ''secret'') =
     Some (Inr (result True [(''session'', JStr (ascii ''s1'')), (''message'', JMsg TextSent)])) \<and>
   load_session_info world_no_log (ascii ''s1'') = Some info_example \<and>
   ascii ''s1'' \<notin> fifos world_no_log \<and>
   SubprocessBackend_send world_no_log env_pipe (ascii ''s1'') (ascii ''secret'') =
     Some (Inr (result False [(''error'', JMsg (NoFifo (ascii ''s1'')))])) \<and>
   ascii ''s1'' \<in> fifos world_stale \<and> ascii ''s1'' \<notin> readers world_stale \<and>
   SubprocessBackend_send world_stale env_pipe (ascii ''s1'') (ascii ''secret'') = None \<and>
   is_OSError BrokenPipeError \<and>
   SubprocessBackend_send world_live (env_pipe\<lparr>fifo_write := Some BrokenPipeError\<rparr>)
     (ascii ''s1'') (ascii ''secret'') =
     Some (Inr (result False [(''error'', JMsg (ExcText BrokenPipeError))])) \<and>
   \<not> is_OSError ValueError \<and>
   SubprocessBackend_send world_live (env_pipe\<lparr>fifo_write := Some ValueError\<rparr>)
     (ascii ''s1'') (ascii ''secret'') = Some (Inl ValueError)"
proof -
  let ?nm = "ascii ''s1''"
  let ?w = "world_live\<lparr>records := []\<rparr>"
  let ?e1 = "env_pipe\<lparr>fifo_write := Some BrokenPipeError\<rparr>"
  let ?e2 = "env_pipe\<lparr>fifo_write := Some ValueError\<rparr>"
  have a: "load_session_info ?w ?nm = None" "?nm \<in> fifos ?w" "?nm \<in> readers ?w"
    using world_live_facts(3,5) by (simp_all add: load_session_info_def)
  have d: "is_OSError BrokenPipeError" "fifo_write ?e1 = Some BrokenPipeError"
    "\<not> is_OSError ValueError" "fifo_write ?e2 = Some ValueError"
    by (simp_all add: is_OSError_def)
  have r1: "SubprocessBackend_send ?w env_pipe ?nm (ascii ''secret'') =
     Some (Inr (result True [(''session'', JStr ?nm), (''message'', JMsg TextSent)]))"
    using send_looks_at_the_pipe_only [of ?w env_pipe ?nm] a(2,3) env_pipe_facts(3) by blast
  have r2: "SubprocessBackend_send world_no_log env_pipe ?nm (ascii ''secret'') =
     Some (Inr (result False [(''error'', JMsg (NoFifo ?nm))]))"
    using send_looks_at_the_pipe_only [of world_no_log env_pipe ?nm] world_no_log_facts(3)
    by blast
  have r3: "SubprocessBackend_send world_stale env_pipe ?nm (ascii ''secret'') = None"
    using send_looks_at_the_pipe_only [of world_stale env_pipe ?nm] world_stale_facts(3,7)
    by blast
  have r4: "SubprocessBackend_send world_live ?e1 ?nm (ascii ''secret'') =
     Some (Inr (result False [(''error'', JMsg (ExcText BrokenPipeError))]))"
    using send_looks_at_the_pipe_only [of world_live ?e1 ?nm] world_live_facts(3,5) d(1,2)
    by blast
  have r5: "SubprocessBackend_send world_live ?e2 ?nm (ascii ''secret'') = Some (Inl ValueError)"
    using send_looks_at_the_pipe_only [of world_live ?e2 ?nm] world_live_facts(3,5) d(3,4)
    by blast
  show ?thesis
    using a env_pipe_facts(3) r1 world_no_log_facts(1,3) r2 world_stale_facts(3,7) r3 d(1) r4
      d(3) r5
    by (intro conjI)
qed

text \<open>C10 as stated fails where the pipe file exists, a supervisor reads it, and writing
  to it raises an \<open>OSError\<close> (here the reading end is closed under the write): \<open>send\<close>
  reports a failure.\<close>

theorem send_with_pipe_present_counterexample:
  "ascii ''s1'' \<in> fifos world_live \<and> ascii ''s1'' \<in> readers world_live \<and>
   SubprocessBackend_send world_live (env_pipe\<lparr>fifo_write := Some BrokenPipeError\<rparr>)
     (ascii ''s1'') (ascii ''secret'') =
     Some (Inr (result False [(''error'', JMsg (ExcText BrokenPipeError))])) \<and>
   field (result False [(''error'', JMsg (ExcText BrokenPipeError))]) ''success'' =
     Some (JBool False)"
  using world_live_facts(3,5)
  by (simp add: SubprocessBackend_send_def is_OSError_def field_def result_def)

section \<open>Reading a session from the command line\<close>

text \<open>
  C3. The claim: on the pipe/daemon backend \<open>read\<close> accepts the arguments of the multiplexer
  backend's \<open>read\<close> (name, lines, maxChars, output file) and truncates a tail longer than
  \<open>maxChars\<close>. The code does not: \<open>SubprocessBackend.read\<close> declares three parameters (name,
  lines, output file) and \<open>main\<close> passes four, so that every \<open>read\<close> issued while the
  pipe/daemon backend is selected ends in a \<open>TypeError\<close> and leaves the state as it was.
\<close>

theorem read_on_pipe_backend_raises:
  "get_backend e = SubprocessBackend \<longrightarrow>
   main w e (Some (Read nm lines max_chars output_file)) = Some (Inl TypeError, w)"
  by (simp add: main_Read SubprocessBackend_read_call_4)

theorem read_on_pipe_backend_raises_witness:
  "get_backend env_pipe = SubprocessBackend \<and>
   logs world_live (ascii ''s1'') = Some (ascii ''old'' @ [nl]) \<and>
   main world_live env_pipe (Some (Read (ascii ''s1'') 30 2 [])) = Some (Inl TypeError, world_live)"
  using read_on_pipe_backend_raises [of env_pipe world_live "ascii ''s1''" 30 2 "[]"]
    env_pipe_facts(1) world_live_facts(2)
  by blast

section \<open>The round trip of create, exec and read\<close>

text \<open>Right-stripping, and a text found inside another.\<close>

lemma rstrip_snoc: "rstrip (s @ [c]) = (if isspace c then rstrip s else s @ [c])"
  by (simp add: rstrip_def)

lemma rstrip_idem: "rstrip (rstrip s) = rstrip s"
  by (simp add: rstrip_def)

lemma rstrip_last:
  assumes "rstrip a = a" and "a \<noteq> []"
  shows "\<not> isspace (last a)"
proof -
  from assms(1) have "dropWhile isspace (rev a) = rev a"
    by (metis rev_rev_ident rstrip_def)
  moreover from assms(2) have "dropWhile isspace (rev a) \<noteq> []"
    using calculation by simp
  then have "\<not> isspace (hd (dropWhile isspace (rev a)))"
    by (rule hd_dropWhile)
  ultimately show ?thesis
    using assms(2) by (simp add: hd_rev)
qed

lemma sublist_butlast:
  assumes "sublist a (s @ [c])" and "a = [] \<or> last a \<noteq> c"
  shows "sublist a s"
proof -
  from assms(1) obtain p q where pq: "s @ [c] = p @ a @ q"
    by (auto simp: sublist_def)
  show ?thesis
  proof (cases q rule: rev_cases)
    case Nil
    with pq assms(2) show ?thesis
      by (cases a rule: rev_cases) auto
  next
    case (snoc q' x)
    with pq have "s = p @ a @ q'" by simp
    then show ?thesis by (auto simp: sublist_def)
  qed
qed

lemma sublist_into_rstrip:
  assumes "sublist a s" and "rstrip a = a"
  shows "sublist a (rstrip s)"
  using assms(1)
proof (induction s rule: rev_induct)
  case Nil
  then show ?case by (simp add: rstrip_def)
next
  case (snoc c s)
  show ?case
  proof (cases "isspace c")
    case True
    have "a = [] \<or> last a \<noteq> c"
      using rstrip_last [OF assms(2)] True by auto
    with snoc.prems have "sublist a s" by (rule sublist_butlast)
    with snoc.IH True show ?thesis by (simp add: rstrip_snoc)
  next
    case False
    with snoc.prems show ?thesis by (simp add: rstrip_snoc)
  qed
qed

lemma poll_pane_stripped:
  "poll_pane caps m cmd k n = Some out \<Longrightarrow> rstrip out = out"
  by (induction n arbitrary: k) (auto simp: Let_def extract_output_def rstrip_idem split: if_splits)

text \<open>
  On the multiplexer backend the three steps go through. When a poll within the wait shows
  the end sentinel, \<open>exec\<close> returns the text extracted from that capture; \<open>read\<close> returns the
  pane text the multiplexer hands over, right-stripped; and that contains the text \<open>exec\<close>
  returned whenever the pane still shows it and the limit on characters does not cut the
  tail.
\<close>

lemma round_trip_on_multiplexer_backend:
  assumes backend: "get_backend e1 = TmuxBackend" "get_backend e2 = TmuxBackend"
      "get_backend e3 = TmuxBackend"
    and fresh: "nm \<notin> tmux_sessions w"
    and started: "new_session_ok e1"
    and completed: "poll_pane (captures e2) (marker e2) cmd 0 (nat (timeout * 10)) = Some out"
    and shown: "str_in out (captures e3 0)"
    and fits: "max_chars \<le> 0 \<or> int (length (rstrip (captures e3 0))) \<le> max_chars"
  shows "\<exists>r1 w1 content.
           main w e1 (Some (Create nm sh)) = Some (Inr r1, w1) \<and>
           field r1 ''success'' = Some (JBool True) \<and>
           main w1 e2 (Some (Exec nm cmd timeout)) =
             Some (Inr (result True [(''session'', JStr nm), (''output'', JStr out)]), w1) \<and>
           main w1 e3 (Some (Read nm lines max_chars [])) =
             Some (Inr (result True [(''session'', JStr nm), (''output'', JStr content)]), w1) \<and>
           str_in out content"
proof -
  let ?p = "case display_pid e1 of Some n \<Rightarrow> int n | None \<Rightarrow> 0"
  let ?w1 = "save_session_info (w\<lparr>tmux_sessions := insert nm (tmux_sessions w)\<rparr>) e1 nm ?p
               (or_default sh (ascii ''/bin/bash''))"
  let ?r1 = "result True [(''session'', JStr nm), (''message'', JMsg (Created nm))]"
  have live: "nm \<in> tmux_sessions ?w1"
    by (simp add: save_session_info_def)
  have cr: "main w e1 (Some (Create nm sh)) = Some (Inr ?r1, ?w1)"
    using backend(1) tmux_selected [OF backend(1)] fresh started
    by (simp add: main_Create TmuxBackend_create_def Let_def)
  have ok: "field ?r1 ''success'' = Some (JBool True)"
    by (simp add: field_def result_def)
  have ex: "main ?w1 e2 (Some (Exec nm cmd timeout)) =
      Some (Inr (result True [(''session'', JStr nm), (''output'', JStr out)]), ?w1)"
    using backend(2) live completed by (simp add: main_Exec TmuxBackend_exec_cmd_def)
  have rd: "main ?w1 e3 (Some (Read nm lines max_chars [])) =
      Some (Inr (result True [(''session'', JStr nm), (''output'', JStr (rstrip (captures e3 0)))]),
            ?w1)"
    using backend(3) live fits
    by (auto simp: main_Read TmuxBackend_read_call_4 TmuxBackend_read_def Let_def)
  have "sublist out (rstrip (captures e3 0))"
    using shown poll_pane_stripped [OF completed] by (simp add: str_in_sublist sublist_into_rstrip)
  then have inside: "str_in out (rstrip (captures e3 0))"
    by (simp add: str_in_sublist)
  show ?thesis
    using cr ok ex rd inside by blast
qed

lemma save_keeps_rest:
  "logs (save_session_info w e nm p sh) = logs w"
  "fifos (save_session_info w e nm p sh) = fifos w"
  "readers (save_session_info w e nm p sh) = readers w"
  "procs (save_session_info w e nm p sh) = procs w"
  by (simp_all add: save_session_info_def)

text \<open>What \<open>create\<close> leaves for a name without record, on the no-pipe platform and where
  the pipe could be made and the supervisor has written its process id.\<close>

lemma create_fresh_windows:
  assumes "load_session_info w nm = None" and "is_windows e"
  shows "\<exists>r w1 i. SubprocessBackend_create w e nm sh = (Inr r, w1) \<and>
           field r ''success'' = Some (JBool True) \<and>
           load_session_info w1 nm = Some i \<and> info_pid i = 0 \<and> logs w1 nm = Some []"
  using assms
  by (simp add: create_fresh Let_def load_after_save save_keeps_rest field_def result_def)

lemma create_fresh_unix:
  assumes "load_session_info w nm = None" and "\<not> is_windows e" and "\<not> mkfifo_fails e"
    and "daemon_wrote_pid e"
  shows "\<exists>r w1 i. SubprocessBackend_create w e nm sh = (Inr r, w1) \<and>
           field r ''success'' = Some (JBool True) \<and>
           load_session_info w1 nm = Some i \<and> info_pid i \<in> procs w1 \<and> logs w1 nm = Some [] \<and>
           nm \<in> fifos w1 \<and> nm \<in> readers w1"
  using assms
  by (simp add: create_fresh Let_def load_after_save save_keeps_rest field_def result_def)

text \<open>
  C1. The claim: for a name never used before, \<open>create\<close>, then \<open>exec\<close> of a command that
  completes within the timeout, then \<open>read\<close> yields the command's output. On the
  pipe/daemon backend the third step never delivers it: \<open>read\<close>, as \<open>main\<close> calls it, ends
  in a \<open>TypeError\<close>, after a \<open>create\<close> and an \<open>exec\<close> that did their part. On the no-pipe
  platform (first part) \<open>create\<close> succeeds, the one-shot run completes, \<open>exec\<close> returns its
  combined output right-stripped, and the output stands in the session's log. Where the
  command goes through the pipe (second part) \<open>create\<close> succeeds and \<open>exec\<close> returns what
  the log, empty before, holds when the wait ends, right-stripped. In both, the \<open>read\<close> that
  follows raises and leaves the state as it was.
\<close>

theorem round_trip_ends_at_read_on_pipe_backend:
  "(get_backend e1 = SubprocessBackend \<and> get_backend e2 = SubprocessBackend \<and>
    get_backend e3 = SubprocessBackend \<and> load_session_info w nm = None \<and>
    is_windows e1 \<and> is_windows e2 \<and> oneshot_run e2 = Inr (so, se) \<longrightarrow>
      (\<exists>r1 w1 w2.
         main w e1 (Some (Create nm sh)) = Some (Inr r1, w1) \<and>
         field r1 ''success'' = Some (JBool True) \<and>
         main w1 e2 (Some (Exec nm cmd timeout)) =
           Some (Inr (result True [(''session'', JStr nm), (''output'', JStr (rstrip (so @ se))),
                                   (''note'', JMsg ViaNewProcess)]), w2) \<and>
         logs w2 nm = Some (encode_text True (ascii ''$ '' @ cmd @ [nl] @ so @ se @ [nl])) \<and>
         main w2 e3 (Some (Read nm lines max_chars output_file)) = Some (Inl TypeError, w2))) \<and>
   (get_backend e1 = SubprocessBackend \<and> get_backend e2 = SubprocessBackend \<and>
    get_backend e3 = SubprocessBackend \<and> load_session_info w nm = None \<and>
    \<not> is_windows e1 \<and> \<not> mkfifo_fails e1 \<and> daemon_wrote_pid e1 \<and>
    \<not> is_windows e2 \<and> fifo_write e2 = None \<and>
    read_text (log_obs e2 (wait_output (log_obs e2) 0 0 (nat (timeout * 10)))) = Inr content \<longrightarrow>
      (\<exists>r1 w1 w2.
         main w e1 (Some (Create nm sh)) = Some (Inr r1, w1) \<and>
         field r1 ''success'' = Some (JBool True) \<and>
         main w1 e2 (Some (Exec nm cmd timeout)) =
           Some (Inr (result True [(''session'', JStr nm), (''output'', JStr (rstrip content))]),
                 w2) \<and>
         logs w2 nm = Some (log_obs e2 (wait_output (log_obs e2) 0 0 (nat (timeout * 10)))) \<and>
         main w2 e3 (Some (Read nm lines max_chars output_file)) = Some (Inl TypeError, w2)))"
proof (intro conjI impI)
  assume a: "get_backend e1 = SubprocessBackend \<and> get_backend e2 = SubprocessBackend \<and>
    get_backend e3 = SubprocessBackend \<and> load_session_info w nm = None \<and>
    is_windows e1 \<and> is_windows e2 \<and> oneshot_run e2 = Inr (so, se)"
  then obtain r1 w1 i where c: "SubprocessBackend_create w e1 nm sh = (Inr r1, w1)"
    and ok: "field r1 ''success'' = Some (JBool True)"
    and rec: "load_session_info w1 nm = Some i" and log: "logs w1 nm = Some []"
    using create_fresh_windows [of w nm e1 sh] by blast
  let ?w2 = "w1\<lparr>logs := (logs w1)(nm \<mapsto>
      [] @ encode_text (is_windows e2) (ascii ''$ '' @ cmd @ [nl] @ so @ se @ [nl]))\<rparr>"
  have "SubprocessBackend_exec_cmd w1 e2 nm cmd timeout =
      Some (map_prod Inr id (exec_via_new_process w1 e2 nm cmd timeout (st_size [])))"
    using rec log a by (intro exec_oneshot_taken) simp_all
  moreover have "exec_via_new_process w1 e2 nm cmd timeout (st_size []) =
     (result True [(''session'', JStr nm), (''output'', JStr (rstrip (so @ se))),
                   (''note'', JMsg ViaNewProcess)], ?w2)"
    using a log by (intro oneshot_completed) simp_all
  ultimately have ex: "main w1 e2 (Some (Exec nm cmd timeout)) =
      Some (Inr (result True [(''session'', JStr nm), (''output'', JStr (rstrip (so @ se))),
                              (''note'', JMsg ViaNewProcess)]), ?w2)"
    using a by (simp add: main_Exec)
  have held: "logs ?w2 nm = Some (encode_text True (ascii ''$ '' @ cmd @ [nl] @ so @ se @ [nl]))"
    using a by simp
  have rd: "main ?w2 e3 (Some (Read nm lines max_chars output_file)) = Some (Inl TypeError, ?w2)"
    using a by (simp add: main_Read SubprocessBackend_read_call_4)
  have cr: "main w e1 (Some (Create nm sh)) = Some (Inr r1, w1)"
    using a c by (simp add: main_Create)
  show "\<exists>r1 w1 w2.
         main w e1 (Some (Create nm sh)) = Some (Inr r1, w1) \<and>
         field r1 ''success'' = Some (JBool True) \<and>
         main w1 e2 (Some (Exec nm cmd timeout)) =
           Some (Inr (result True [(''session'', JStr nm), (''output'', JStr (rstrip (so @ se))),
                                   (''note'', JMsg ViaNewProcess)]), w2) \<and>
         logs w2 nm = Some (encode_text True (ascii ''$ '' @ cmd @ [nl] @ so @ se @ [nl])) \<and>
         main w2 e3 (Some (Read nm lines max_chars output_file)) = Some (Inl TypeError, w2)"
    using cr ok ex held rd by blast
next
  let ?k = "wait_output (log_obs e2) 0 0 (nat (timeout * 10))"
  assume a: "get_backend e1 = SubprocessBackend \<and> get_backend e2 = SubprocessBackend \<and>
    get_backend e3 = SubprocessBackend \<and> load_session_info w nm = None \<and>
    \<not> is_windows e1 \<and> \<not> mkfifo_fails e1 \<and> daemon_wrote_pid e1 \<and>
    \<not> is_windows e2 \<and> fifo_write e2 = None \<and>
    read_text (log_obs e2 (wait_output (log_obs e2) 0 0 (nat (timeout * 10)))) = Inr content"
  then obtain r1 w1 i where c: "SubprocessBackend_create w e1 nm sh = (Inr r1, w1)"
    and ok: "field r1 ''success'' = Some (JBool True)"
    and rec: "load_session_info w1 nm = Some i" and alive: "info_pid i \<in> procs w1"
    and log: "logs w1 nm = Some []" and pipe: "nm \<in> fifos w1" "nm \<in> readers w1"
    using create_fresh_unix [of w nm e1 sh] by blast
  let ?w2 = "w1\<lparr>logs := (logs w1)(nm \<mapsto> log_obs e2 ?k)\<rparr>"
  have "SubprocessBackend_exec_cmd w1 e2 nm cmd timeout =
     (case read_text (log_obs e2 ?k) of
        Inl x \<Rightarrow> Some (Inl x, ?w2)
      | Inr content \<Rightarrow>
          Some (Inr (result True [(''session'', JStr nm),
                  (''output'', JStr (rstrip (drop (st_size []) content)))]), ?w2))"
    using rec log alive pipe a
    by (intro exec_piped [where i = i and log = "[]"]) (simp_all add: st_size_def)
  then have ex: "main w1 e2 (Some (Exec nm cmd timeout)) =
      Some (Inr (result True [(''session'', JStr nm), (''output'', JStr (rstrip content))]), ?w2)"
    using a by (simp add: main_Exec st_size_def)
  have held: "logs ?w2 nm = Some (log_obs e2 ?k)" by simp
  have rd: "main ?w2 e3 (Some (Read nm lines max_chars output_file)) = Some (Inl TypeError, ?w2)"
    using a by (simp add: main_Read SubprocessBackend_read_call_4)
  have cr: "main w e1 (Some (Create nm sh)) = Some (Inr r1, w1)"
    using a c by (simp add: main_Create)
  show "\<exists>r1 w1 w2.
         main w e1 (Some (Create nm sh)) = Some (Inr r1, w1) \<and>
         field r1 ''success'' = Some (JBool True) \<and>
         main w1 e2 (Some (Exec nm cmd timeout)) =
           Some (Inr (result True [(''session'', JStr nm), (''output'', JStr (rstrip content))]),
                 w2) \<and>
         logs w2 nm = Some (log_obs e2 (wait_output (log_obs e2) 0 0 (nat (timeout * 10)))) \<and>
         main w2 e3 (Some (Read nm lines max_chars output_file)) = Some (Inl TypeError, w2)"
    using cr ok ex held rd by blast
qed

lemma env_hi_facts:
  "get_backend env_hi = SubprocessBackend"
  "\<not> is_windows env_hi"
  "fifo_write env_hi = None"
  "log_obs env_hi = (\<lambda>k. ascii ''hi'' @ [nl])"
  by (simp_all add: env_hi_def env_pipe_def env_example_def get_backend_def)

theorem round_trip_ends_at_read_on_pipe_backend_witness:
  "get_backend env_windows = SubprocessBackend \<and> is_windows env_windows \<and>
   load_session_info world_empty (ascii ''s1'') = None \<and>
   oneshot_run env_windows = Inr (ascii ''hi'' @ [nl], []) \<and>
   (\<exists>r1 w1 w2.
      main world_empty env_windows (Some (Create (ascii ''s1'') None)) = Some (Inr r1, w1) \<and>
      field r1 ''success'' = Some (JBool True) \<and>
      main w1 env_windows (Some (Exec (ascii ''s1'') (ascii ''echo hi'') 10)) =
        Some (Inr (result True [(''session'', JStr (ascii ''s1'')), (''output'', JStr (ascii ''hi'')),
                                (''note'', JMsg ViaNewProcess)]), w2) \<and>
      main w2 env_windows (Some (Read (ascii ''s1'') 30 2000 [])) = Some (Inl TypeError, w2)) \<and>
   get_backend env_pipe = SubprocessBackend \<and> get_backend env_hi = SubprocessBackend \<and>
   \<not> is_windows env_pipe \<and> \<not> mkfifo_fails env_pipe \<and> daemon_wrote_pid env_pipe \<and>
   \<not> is_windows env_hi \<and> fifo_write env_hi = None \<and>
   read_text (log_obs env_hi (wait_output (log_obs env_hi) 0 0 (nat (10 * 10)))) =
     Inr (ascii ''hi'' @ [nl]) \<and>
   (\<exists>r1 w1 w2.
      main world_empty env_pipe (Some (Create (ascii ''s1'') None)) = Some (Inr r1, w1) \<and>
      field r1 ''success'' = Some (JBool True) \<and>
      main w1 env_hi (Some (Exec (ascii ''s1'') (ascii ''echo hi'') 10)) =
        Some (Inr (result True [(''session'', JStr (ascii ''s1'')), (''output'', JStr (ascii ''hi''))]),
              w2) \<and>
      main w2 env_pipe (Some (Read (ascii ''s1'') 30 2000 [])) = Some (Inl TypeError, w2))"
proof -
  let ?nm = "ascii ''s1''"
  have strip_hi: "rstrip ((ascii ''hi'' @ [nl]) @ []) = ascii ''hi''"
    "rstrip (ascii ''hi'' @ [nl]) = ascii ''hi''"
    by (simp_all add: rstrip_def isspace_def ascii_def nl_def)
  have wrote: "daemon_wrote_pid env_pipe"
    by (simp add: env_pipe_def env_example_def)
  have "read_text (ascii ''hi'' @ [nl]) = Inr (ascii ''hi'' @ [nl])"
    by (rule read_text_ascii) (auto simp: ascii_def nl_def)
  then have decoded: "read_text (log_obs env_hi (wait_output (log_obs env_hi) 0 0 (nat (10 * 10)))) =
     Inr (ascii ''hi'' @ [nl])"
    unfolding env_hi_facts(4) by simp
  note T1 = round_trip_ends_at_read_on_pipe_backend
    [of env_windows env_windows env_windows world_empty ?nm "ascii ''hi'' @ [nl]" "[]" None
       "ascii ''echo hi''" 10 30 2000 "[]"]
  note T2 = round_trip_ends_at_read_on_pipe_backend
    [of env_pipe env_hi env_pipe world_empty ?nm _ _ None "ascii ''echo hi''" 10 30 2000 "[]"
       "ascii ''hi'' @ [nl]"]
  have c1: "\<exists>r1 w1 w2.
      main world_empty env_windows (Some (Create ?nm None)) = Some (Inr r1, w1) \<and>
      field r1 ''success'' = Some (JBool True) \<and>
      main w1 env_windows (Some (Exec ?nm (ascii ''echo hi'') 10)) =
        Some (Inr (result True [(''session'', JStr ?nm), (''output'', JStr (ascii ''hi'')),
                                (''note'', JMsg ViaNewProcess)]), w2) \<and>
      main w2 env_windows (Some (Read ?nm 30 2000 [])) = Some (Inl TypeError, w2)"
    using T1 env_windows_facts world_empty_facts(1) [of ?nm] unfolding strip_hi by blast
  have c2: "\<exists>r1 w1 w2.
      main world_empty env_pipe (Some (Create ?nm None)) = Some (Inr r1, w1) \<and>
      field r1 ''success'' = Some (JBool True) \<and>
      main w1 env_hi (Some (Exec ?nm (ascii ''echo hi'') 10)) =
        Some (Inr (result True [(''session'', JStr ?nm), (''output'', JStr (ascii ''hi''))]), w2) \<and>
      main w2 env_pipe (Some (Read ?nm 30 2000 [])) = Some (Inl TypeError, w2)"
    using T2 env_pipe_facts(1,2,4) wrote env_hi_facts(1,2,3) decoded world_empty_facts(1) [of ?nm]
    unfolding strip_hi by blast
  show ?thesis
    using env_windows_facts world_empty_facts(1) [of ?nm] c1 env_pipe_facts(1) env_hi_facts(1)
      env_pipe_facts(2,4) wrote env_hi_facts(2,3) decoded c2
    by (intro conjI)
qed

section \<open>The shape of what the operations return\<close>






























end
